theory Spec2Isabelle
  imports Main "HOL-Library.Word" "HOL-Library.Char_ord" "HOL-Library.List_Lexorder"
begin

unbundle bit_operations_syntax

section \<open>Value model\<close>

text \<open>
  The document node of \<^verbatim>\<open>src/common/json.cc\<close>. A byte (C++ \<^verbatim>\<open>char\<close>) is a \<^typ>\<open>char\<close>,
  a \<^verbatim>\<open>std::string\<close> and a \<^verbatim>\<open>std::vector<char>\<close> are \<^typ>\<open>string\<close>. \<^verbatim>\<open>Integer::Int\<close> is a
  64-bit word, read signed with \<^const>\<open>sint\<close>. A \<^verbatim>\<open>float\<close> is its IEEE-754 binary32 bit pattern
  and a \<^verbatim>\<open>double\<close> its binary64 bit pattern, so that the bytes the binary codec moves are
  exact. \<^verbatim>\<open>Object::Map\<close> is an ordered map (\<^verbatim>\<open>std::map\<close> keyed by \<^verbatim>\<open>std::string\<close>): an
  association list whose keys are strictly increasing, enumerated front to back.
\<close>

datatype Json =
    JsonNull
  | JsonBoolean bool
  | JsonInteger "64 word"
  | JsonNumber "32 word"
  | JsonString string
  | JsonArray "Json list"
  | JsonObject "(string \<times> Json) list"
  | F32Array "32 word list"
  | F64Array "64 word list"
  | I8Array "8 word list"
  | U8Array "8 word list"
  | I16Array "16 word list"
  | U16Array "16 word list"
  | I32Array "32 word list"
  | U32Array "32 word list"
  | I64Array "64 word list"
  | U64Array "64 word list"

text \<open>
  What the code can fail with. \<^verbatim>\<open>LOG(FATAL) << msg\<close> throws with the message.
  \<^verbatim>\<open>Expect(c, got)\<close> reports the expected character, the one found and the cursor position (its
  message text is composed in \<^verbatim>\<open>json_io.h\<close>). \<open>CheckFailed\<close> is a failed \<^verbatim>\<open>CHECK\<close>
  with the text streamed into it. \<open>LengthError\<close> is a container asked for a
  negative size converted to \<^verbatim>\<open>size_t\<close>; \<open>OutOfBounds\<close> is a read past the end of the buffer,
  which the code does not check; \<open>OutOfFuel\<close> is the model's recursion bound.
\<close>

datatype error =
    Fatal string
  | Expecting char int nat
  | CheckFailed string
  | LengthError
  | OutOfBounds
  | OutOfFuel

subsection \<open>Object::Map\<close>

text \<open>\<^verbatim>\<open>results.emplace(key, value)\<close>: inserts unless the key is present.\<close>

fun Map_emplace :: "string \<Rightarrow> Json \<Rightarrow> (string \<times> Json) list \<Rightarrow> (string \<times> Json) list" where
  "Map_emplace k v [] = [(k, v)]"
| "Map_emplace k v ((k', v') # m) =
     (if k < k' then (k, v) # (k', v') # m
      else if k = k' then (k', v') # m
      else (k', v') # Map_emplace k v m)"

text \<open>\<^verbatim>\<open>data[key] = value\<close>: inserts, or overwrites the value of a present key.\<close>

fun Map_assign :: "string \<Rightarrow> Json \<Rightarrow> (string \<times> Json) list \<Rightarrow> (string \<times> Json) list" where
  "Map_assign k v [] = [(k, v)]"
| "Map_assign k v ((k', v') # m) =
     (if k < k' then (k, v) # (k', v') # m
      else if k = k' then (k', v) # m
      else (k', v') # Map_assign k v m)"

subsection \<open>Floating-point classification on bit patterns\<close>

definition isinf32 :: "32 word \<Rightarrow> bool" where
  "isinf32 w = (w AND 0x7FFFFFFF = 0x7F800000)"

definition isnan32 :: "32 word \<Rightarrow> bool" where
  "isnan32 w = (w AND 0x7F800000 = 0x7F800000 \<and> w AND 0x007FFFFF \<noteq> 0)"

definition isnan64 :: "64 word \<Rightarrow> bool" where
  "isnan64 w = (w AND 0x7FF0000000000000 = 0x7FF0000000000000 \<and> w AND 0x000FFFFFFFFFFFFF \<noteq> 0)"

text \<open>
  The value of a finite binary32 number in units of \<open>2\<^sup>-\<^sup>1\<^sup>4\<^sup>9\<close> (the smallest subnormal):
  an exact integer.
\<close>

definition f32_scaled :: "32 word \<Rightarrow> int" where
  "f32_scaled w =
     (let e = unat (drop_bit 23 w AND 0xFF);
          m = unat (w AND 0x007FFFFF);
          mag = (if e = 0 then m else (2 ^ 23 + m) * 2 ^ (e - 1))
      in if bit w 31 then - int mag else int mag)"

text \<open>
  The C++ test \<^verbatim>\<open>a - b == 0\<close> on floats. A NaN operand gives NaN, an infinite operand gives
  an infinity or NaN, and none of them compares equal to 0. The difference of two finite
  numbers is a multiple of the smallest subnormal, so it rounds to zero only when it is zero.
\<close>

definition f32_diff_is_zero :: "32 word \<Rightarrow> 32 word \<Rightarrow> bool" where
  "f32_diff_is_zero a b =
     (\<not> isnan32 a \<and> \<not> isnan32 b \<and> \<not> isinf32 a \<and> \<not> isinf32 b \<and> f32_scaled a = f32_scaled b)"

text \<open>The C++ \<^verbatim>\<open>==\<close> on doubles: false on NaN, true on equal bits and on the two zeros.\<close>

definition f64_eq :: "64 word \<Rightarrow> 64 word \<Rightarrow> bool" where
  "f64_eq a b =
     (\<not> isnan64 a \<and> \<not> isnan64 b \<and>
      (a = b \<or> (a AND 0x7FFFFFFFFFFFFFFF = 0 \<and> b AND 0x7FFFFFFFFFFFFFFF = 0)))"

subsection \<open>Structural equality\<close>

text \<open>\<^verbatim>\<open>JsonNumber::operator==\<close>, on the two stored floats.\<close>

definition JsonNumber_eq :: "32 word \<Rightarrow> 32 word \<Rightarrow> bool" where
  "JsonNumber_eq number r_num =
     (if isinf32 number then isinf32 r_num
      else if isnan32 number then isnan32 r_num
      else f32_diff_is_zero number r_num)"

text \<open>The element loop of \<^verbatim>\<open>JsonTypedArray<float>::operator==\<close>.\<close>

fun F32Array_eq :: "32 word list \<Rightarrow> 32 word list \<Rightarrow> bool" where
  "F32Array_eq [] [] = True"
| "F32Array_eq (v # vec) (a # arr) =
     ((if isnan32 v then isnan32 a
       else if isinf32 v then isinf32 a
       else f32_diff_is_zero a v) \<and> F32Array_eq vec arr)"
| "F32Array_eq _ _ = False"

text \<open>\<^verbatim>\<open>std::equal(arr.cbegin(), arr.cend(), vec_.cbegin())\<close> after the size check.\<close>

fun std_equal :: "('a \<Rightarrow> 'a \<Rightarrow> bool) \<Rightarrow> 'a list \<Rightarrow> 'a list \<Rightarrow> bool" where
  "std_equal eq [] [] = True"
| "std_equal eq (a # arr) (v # vec) = (eq a v \<and> std_equal eq arr vec)"
| "std_equal eq _ _ = False"

text \<open>
  \<^verbatim>\<open>Value::operator==\<close>, dispatched on the left operand; each override first checks the kind
  of the right operand. \<^verbatim>\<open>JsonArray\<close> compares sizes, then \<^verbatim>\<open>std::equal\<close> with the right
  operand's elements on the left of \<^verbatim>\<open>==\<close>. \<^verbatim>\<open>JsonObject\<close> compares the two maps entry by
  entry in enumeration order.
\<close>

function (sequential) Json_eq :: "Json \<Rightarrow> Json \<Rightarrow> bool"
  and Array_eq :: "Json list \<Rightarrow> Json list \<Rightarrow> bool"
  and Map_eq :: "(string \<times> Json) list \<Rightarrow> (string \<times> Json) list \<Rightarrow> bool" where
  "Json_eq JsonNull rhs = (case rhs of JsonNull \<Rightarrow> True | _ \<Rightarrow> False)"
| "Json_eq (JsonBoolean b) rhs = (case rhs of JsonBoolean b' \<Rightarrow> b = b' | _ \<Rightarrow> False)"
| "Json_eq (JsonInteger i) rhs = (case rhs of JsonInteger i' \<Rightarrow> i = i' | _ \<Rightarrow> False)"
| "Json_eq (JsonNumber x) rhs = (case rhs of JsonNumber y \<Rightarrow> JsonNumber_eq x y | _ \<Rightarrow> False)"
| "Json_eq (JsonString s) rhs = (case rhs of JsonString s' \<Rightarrow> s' = s | _ \<Rightarrow> False)"
| "Json_eq (JsonArray vec) rhs = (case rhs of JsonArray arr \<Rightarrow> Array_eq arr vec | _ \<Rightarrow> False)"
| "Json_eq (JsonObject obj) rhs = (case rhs of JsonObject obj' \<Rightarrow> Map_eq obj obj' | _ \<Rightarrow> False)"
| "Json_eq (F32Array vec) rhs = (case rhs of F32Array arr \<Rightarrow> F32Array_eq vec arr | _ \<Rightarrow> False)"
| "Json_eq (F64Array vec) rhs = (case rhs of F64Array arr \<Rightarrow> std_equal f64_eq arr vec | _ \<Rightarrow> False)"
| "Json_eq (I8Array vec) rhs = (case rhs of I8Array arr \<Rightarrow> std_equal (=) arr vec | _ \<Rightarrow> False)"
| "Json_eq (U8Array vec) rhs = (case rhs of U8Array arr \<Rightarrow> std_equal (=) arr vec | _ \<Rightarrow> False)"
| "Json_eq (I16Array vec) rhs = (case rhs of I16Array arr \<Rightarrow> std_equal (=) arr vec | _ \<Rightarrow> False)"
| "Json_eq (U16Array vec) rhs = (case rhs of U16Array arr \<Rightarrow> std_equal (=) arr vec | _ \<Rightarrow> False)"
| "Json_eq (I32Array vec) rhs = (case rhs of I32Array arr \<Rightarrow> std_equal (=) arr vec | _ \<Rightarrow> False)"
| "Json_eq (U32Array vec) rhs = (case rhs of U32Array arr \<Rightarrow> std_equal (=) arr vec | _ \<Rightarrow> False)"
| "Json_eq (I64Array vec) rhs = (case rhs of I64Array arr \<Rightarrow> std_equal (=) arr vec | _ \<Rightarrow> False)"
| "Json_eq (U64Array vec) rhs = (case rhs of U64Array arr \<Rightarrow> std_equal (=) arr vec | _ \<Rightarrow> False)"
| "Array_eq [] [] = True"
| "Array_eq (a # arr) (v # vec) = (Json_eq a v \<and> Array_eq arr vec)"
| "Array_eq _ _ = False"
| "Map_eq [] [] = True"
| "Map_eq ((k, v) # m) ((k', v') # m') = (k = k' \<and> Json_eq v v' \<and> Map_eq m m')"
| "Map_eq _ _ = False"
  by pat_completeness auto
termination
  by (relation "measure (\<lambda>x. case x of
        Inl (a, b) \<Rightarrow> size a + size b
      | Inr (Inl (xs, ys)) \<Rightarrow> size_list size xs + size_list size ys
      | Inr (Inr (m, m')) \<Rightarrow> size_list (size_prod (\<lambda>_. 0) size) m + size_list (size_prod (\<lambda>_. 0) size) m')")
    auto


section \<open>Big-endian primitives\<close>

text \<open>The \<open>k\<close> low bytes of \<open>n\<close>, most significant first.\<close>

fun be_bytes :: "nat \<Rightarrow> nat \<Rightarrow> string" where
  "be_bytes 0 n = []"
| "be_bytes (Suc k) n = be_bytes k (n div 256) @ [char_of n]"

definition be_val :: "string \<Rightarrow> nat" where
  "be_val bs = foldl (\<lambda>a c. a * 256 + of_char c) 0 bs"

text \<open>\<^verbatim>\<open>WritePrimitive\<close>: \<^verbatim>\<open>ToBigEndian\<close>, then the bytes of the value appended to the stream.\<close>

definition WritePrimitive :: "'a::len word \<Rightarrow> string" where
  "WritePrimitive v = be_bytes (LENGTH('a) div 8) (unat v)"

text \<open>
  Modelled from the spec: \<^verbatim>\<open>UBJReader::ReadPrimitive<T>\<close> is declared in \<^verbatim>\<open>json_io.h\<close>, which
  is not among the sources. The spec has every multi-byte primitive fixed-width big-endian;
  the read takes \<^verbatim>\<open>sizeof(T)\<close> bytes at the cursor and moves the cursor past them.
\<close>

definition ReadPrimitive :: "string \<Rightarrow> error + ('a::len word \<times> string)" where
  "ReadPrimitive rest =
     (let k = LENGTH('a) div 8
      in if length rest < k then Inl OutOfBounds
         else Inr (of_nat (be_val (take k rest)), drop k rest))"

text \<open>\<^verbatim>\<open>EncodeStr\<close>: marker \<^verbatim>\<open>L\<close>, the size as \<^verbatim>\<open>int64_t\<close>, the raw bytes.\<close>

definition EncodeStr :: "string \<Rightarrow> string" where
  "EncodeStr str = CHR ''L'' # WritePrimitive (of_nat (length str) :: 64 word) @ str"

section \<open>Binary writer\<close>

text \<open>\<^verbatim>\<open>UBJWriter::Visit(JsonInteger const*)\<close>, with its strict bounds.\<close>

definition UBJWriter_Visit_Integer :: "64 word \<Rightarrow> string" where
  "UBJWriter_Visit_Integer i =
     (if - 128 < sint i \<and> sint i < 127 then CHR ''i'' # WritePrimitive (ucast i :: 8 word)
      else if - 32768 < sint i \<and> sint i < 32767 then CHR ''I'' # WritePrimitive (ucast i :: 16 word)
      else if - 2147483648 < sint i \<and> sint i < 2147483647
        then CHR ''l'' # WritePrimitive (ucast i :: 32 word)
      else CHR ''L'' # WritePrimitive i)"

text \<open>
  \<^verbatim>\<open>WriteTypedArray\<close>; the type code is the one its \<^verbatim>\<open>is_same_v\<close> chain selects for the
  element type, passed by each \<^verbatim>\<open>Visit\<close> below.
\<close>

definition WriteTypedArray :: "char \<Rightarrow> 'a::len word list \<Rightarrow> string" where
  "WriteTypedArray code vec =
     CHR ''['' # CHR ''$'' # code # CHR ''#'' # CHR ''L'' #
       WritePrimitive (of_nat (length vec) :: 64 word) @ concat (map WritePrimitive vec)"

text \<open>
  Modelled from the spec: \<^verbatim>\<open>JsonWriter::WriteArray\<close> is a template of \<^verbatim>\<open>json_io.h\<close>, which is
  not among the sources. The spec's text array is \<^verbatim>\<open>[\<close>, the comma-joined elements, \<^verbatim>\<open>]\<close>;
  each element is saved through the writer's own \<^verbatim>\<open>Save\<close>.
\<close>

fun WriteArray_elems :: "('a \<Rightarrow> string) \<Rightarrow> 'a list \<Rightarrow> string" where
  "WriteArray_elems save [] = []"
| "WriteArray_elems save [v] = save v"
| "WriteArray_elems save (v # w # vs) = save v @ CHR '','' # WriteArray_elems save (w # vs)"

definition WriteArray :: "('a \<Rightarrow> string) \<Rightarrow> 'a list \<Rightarrow> string" where
  "WriteArray save vec = CHR ''['' # WriteArray_elems save vec @ '']''"

text \<open>
  \<^verbatim>\<open>UBJWriter::Save\<close> with the \<^verbatim>\<open>UBJWriter::Visit\<close> overloads. \<^verbatim>\<open>json.cc\<close> defines
  \<^verbatim>\<open>UBJWriter::Visit\<close> for seven typed-array kinds; for \<^verbatim>\<open>U16Array\<close>, \<^verbatim>\<open>U32Array\<close> and
  \<^verbatim>\<open>U64Array\<close> the only \<^verbatim>\<open>Visit\<close> it defines is \<^verbatim>\<open>JsonWriter\<close>'s, which the binary writer
  inherits: \<^verbatim>\<open>WriteArray\<close> with \<^verbatim>\<open>to_i64\<close>, each element going through the virtual \<^verbatim>\<open>Save\<close>
  and so through \<^verbatim>\<open>UBJWriter::Visit(JsonInteger const*)\<close>.
\<close>

fun UBJWriter_Save :: "Json \<Rightarrow> string"
  and UBJWriter_SaveArray :: "Json list \<Rightarrow> string"
  and UBJWriter_SaveObject :: "(string \<times> Json) list \<Rightarrow> string" where
  "UBJWriter_Save JsonNull = ''Z''"
| "UBJWriter_Save (JsonBoolean b) = [if b then CHR ''T'' else CHR ''F'']"
| "UBJWriter_Save (JsonInteger i) = UBJWriter_Visit_Integer i"
| "UBJWriter_Save (JsonNumber val) = CHR ''d'' # WritePrimitive val"
| "UBJWriter_Save (JsonString str) = CHR ''S'' # EncodeStr str"
| "UBJWriter_Save (JsonArray vec) =
     CHR ''['' # CHR ''#'' # CHR ''L'' # WritePrimitive (of_nat (length vec) :: 64 word) @
       UBJWriter_SaveArray vec"
| "UBJWriter_Save (JsonObject obj) = CHR ''{'' # UBJWriter_SaveObject obj @ ''}''"
| "UBJWriter_Save (F32Array vec) = WriteTypedArray CHR ''d'' vec"
| "UBJWriter_Save (F64Array vec) = WriteTypedArray CHR ''D'' vec"
| "UBJWriter_Save (I8Array vec) = WriteTypedArray CHR ''i'' vec"
| "UBJWriter_Save (U8Array vec) = WriteTypedArray CHR ''U'' vec"
| "UBJWriter_Save (I16Array vec) = WriteTypedArray CHR ''I'' vec"
| "UBJWriter_Save (I32Array vec) = WriteTypedArray CHR ''l'' vec"
| "UBJWriter_Save (I64Array vec) = WriteTypedArray CHR ''L'' vec"
| "UBJWriter_Save (U16Array vec) = WriteArray (\<lambda>v. UBJWriter_Visit_Integer (ucast v)) vec"
| "UBJWriter_Save (U32Array vec) = WriteArray (\<lambda>v. UBJWriter_Visit_Integer (ucast v)) vec"
| "UBJWriter_Save (U64Array vec) = WriteArray (\<lambda>v. UBJWriter_Visit_Integer (ucast v)) vec"
| "UBJWriter_SaveArray [] = []"
| "UBJWriter_SaveArray (v # vec) = UBJWriter_Save v @ UBJWriter_SaveArray vec"
| "UBJWriter_SaveObject [] = []"
| "UBJWriter_SaveObject ((key, v) # obj) = EncodeStr key @ UBJWriter_Save v @ UBJWriter_SaveObject obj"

section \<open>The cursor\<close>

text \<open>
  A reader holds the whole buffer \<open>raw\<close> (\<^verbatim>\<open>raw_str_\<close>) and a cursor; the model passes the
  unread suffix \<open>rest\<close> of the buffer, so that \<^verbatim>\<open>cursor_.Pos()\<close> is the number of bytes
  consumed.
\<close>

definition Pos :: "string \<Rightarrow> string \<Rightarrow> nat" where
  "Pos raw rest = length raw - length rest"

text \<open>
  Modelled from the spec: the cursor helpers \<^verbatim>\<open>PeekNextChar\<close>, \<^verbatim>\<open>GetNextChar\<close> and
  \<^verbatim>\<open>GetConsecutiveChar\<close> are declared in \<^verbatim>\<open>json_io.h\<close>, which is not among the sources. The spec
  has a cursor that only advances, with a fixed lookahead; \<^verbatim>\<open>json.cc\<close> tests their results
  against \<open>-1\<close> and \<^verbatim>\<open>EOF\<close> for the end of the buffer, and \<^verbatim>\<open>GetConsecutiveChar\<close> reports a
  character other than the expected one through \<^verbatim>\<open>Expect\<close>. \<^verbatim>\<open>JsonReader::Char\<close> is a signed
  8-bit integer.
\<close>

definition Char :: "char \<Rightarrow> int" where
  "Char c = (if of_char c < (128 :: int) then of_char c else of_char c - 256)"

definition PeekNextChar :: "string \<Rightarrow> int" where
  "PeekNextChar rest = (case rest of [] \<Rightarrow> - 1 | c # _ \<Rightarrow> Char c)"

definition GetNextChar :: "string \<Rightarrow> int \<times> string" where
  "GetNextChar rest = (case rest of [] \<Rightarrow> (- 1, []) | c # r \<Rightarrow> (Char c, r))"

definition GetConsecutiveChar :: "string \<Rightarrow> char \<Rightarrow> string \<Rightarrow> error + string" where
  "GetConsecutiveChar raw expected_char rest =
     (let (result, r) = GetNextChar rest
      in if result \<noteq> Char expected_char then Inl (Expecting expected_char result (Pos raw r))
         else Inr r)"

text \<open>\<^verbatim>\<open>std::to_string\<close> of a \<^verbatim>\<open>size_t\<close>.\<close>

fun to_string :: "nat \<Rightarrow> string" where
  "to_string n = (if n < 10 then [char_of (48 + n)] else to_string (n div 10) @ [char_of (48 + n mod 10)])"

text \<open>\<^verbatim>\<open>JsonReader::Error\<close>: the message, the position, an excerpt and a caret line.\<close>

definition Error :: "string \<Rightarrow> string \<Rightarrow> string \<Rightarrow> error" where
  "Error raw rest msg =
     (let pos = Pos raw rest;
          msg1 = msg @ '', around character position: '' @ to_string pos @ [CHR 0x0A]
      in if pos = 0 then Fatal (msg1 @ '', '' @ [CHR 0x22] @ raw @ '' '' @ [CHR 0x22])
         else
           let beg = (if int pos - 8 < 0 then 0 else pos - 8);
               end = (if pos + 8 \<ge> length raw then length raw else pos + 8);
               raw_portion = take (end - beg) (drop beg raw);
               portion = concat (map (\<lambda>c. if c = CHR 0x0A then [CHR 0x5C, CHR ''n'']
                                           else if c = CHR 0x00 then [CHR 0x5C, CHR ''0''] else [c]) raw_portion)
           in Fatal (msg1 @ ''    '' @ portion @ [CHR 0x0A] @ ''    '' @
                     replicate (pos - 1 - beg) CHR ''~'' @ ''^'' @ replicate (end - pos) CHR ''~''))"

section \<open>Binary reader\<close>

text \<open>
  Modelled from the spec: \<^verbatim>\<open>UBJReader::ParseTypedArray\<close> is a template of \<^verbatim>\<open>json_io.h\<close>, which
  is not among the sources. The spec's typed array is the count followed by that many raw
  big-endian elements packed contiguously.
\<close>

fun ReadPrimitives :: "nat \<Rightarrow> string \<Rightarrow> error + ('a::len word list \<times> string)" where
  "ReadPrimitives 0 rest = Inr ([], rest)"
| "ReadPrimitives (Suc n) rest =
     (case ReadPrimitive rest of
        Inl e \<Rightarrow> Inl e
      | Inr (v, r) \<Rightarrow>
          (case ReadPrimitives n r of
             Inl e \<Rightarrow> Inl e
           | Inr (vs, r') \<Rightarrow> Inr (v # vs, r')))"

definition ParseTypedArray :: "64 word \<Rightarrow> string \<Rightarrow> error + ('a::len word list \<times> string)" where
  "ParseTypedArray n rest = (if sint n < 0 then Inl LengthError else ReadPrimitives (unat n) rest)"

text \<open>
  \<^verbatim>\<open>UBJReader::DecodeStr\<close>. \<^verbatim>\<open>str.resize(bsize)\<close> throws for a negative size. The code does
  not compare the size with the bytes left in the buffer: with a size that reaches past the
  end, \<^verbatim>\<open>memcpy\<close> reads bytes outside the buffer and the cursor moves past the end, which C++
  leaves undefined. The model holds no byte outside the buffer, so it cannot return the string
  such a run would build; it marks the run with \<open>OutOfBounds\<close>.
\<close>

definition DecodeStr :: "string \<Rightarrow> string \<Rightarrow> error + (string \<times> string)" where
  "DecodeStr raw rest =
     (case GetConsecutiveChar raw CHR ''L'' rest of
        Inl e \<Rightarrow> Inl e
      | Inr r \<Rightarrow>
          (case ReadPrimitive r of
             Inl e \<Rightarrow> Inl e
           | Inr (bsize :: 64 word, r') \<Rightarrow>
               if sint bsize < 0 then Inl LengthError
               else if length r' < unat bsize then Inl OutOfBounds
               else Inr (take (unat bsize) r', drop (unat bsize) r')))"

text \<open>The header \<^verbatim>\<open>$\<close> type \<^verbatim>\<open>#\<close> \<^verbatim>\<open>L\<close> count of a typed array, after the \<^verbatim>\<open>$\<close> was seen.\<close>

definition TypedArrayHeader :: "string \<Rightarrow> string \<Rightarrow> error + (int \<times> 64 word \<times> string)" where
  "TypedArrayHeader raw rest =
     (let (_, r0) = GetNextChar rest;
          (type, r1) = GetNextChar r0
      in case GetConsecutiveChar raw CHR ''#'' r1 of
           Inl e \<Rightarrow> Inl e
         | Inr r2 \<Rightarrow>
             (case GetConsecutiveChar raw CHR ''L'' r2 of
                Inl e \<Rightarrow> Inl e
              | Inr r3 \<Rightarrow>
                  (case ReadPrimitive r3 of
                     Inl e \<Rightarrow> Inl e
                   | Inr (n, r4) \<Rightarrow> Inr (type, n, r4))))"

definition typed :: "('a list \<Rightarrow> Json) \<Rightarrow> error + ('a list \<times> string) \<Rightarrow> error + (Json \<times> string)" where
  "typed kind res = (case res of Inl e \<Rightarrow> Inl e | Inr (vs, r) \<Rightarrow> Inr (kind vs, r))"

text \<open>
  The cases of the \<^verbatim>\<open>switch\<close> of \<^verbatim>\<open>UBJReader::Parse\<close> that read one value without recursion;
  \<open>c\<close> is the marker just consumed and \<open>r\<close> the input after it. \<open>narrow\<close> is the conversion
  \<^verbatim>\<open>static_cast<float>(double)\<close> applied when a \<^verbatim>\<open>D\<close> value is stored in a \<^verbatim>\<open>Number\<close>. A plain
  \<^verbatim>\<open>char\<close> (marker \<^verbatim>\<open>C\<close>) is read signed.
\<close>

definition UBJReader_ParseValue :: "(64 word \<Rightarrow> 32 word) \<Rightarrow> string \<Rightarrow> char \<Rightarrow> string \<Rightarrow> error + (Json \<times> string)" where
  "UBJReader_ParseValue narrow raw c r =
     (if c = CHR ''Z'' then Inr (JsonNull, r)
      else if c = CHR ''T'' then Inr (JsonBoolean True, r)
      else if c = CHR ''F'' then Inr (JsonBoolean False, r)
      else if c = CHR ''d'' then
        (case ReadPrimitive r of Inl e \<Rightarrow> Inl e | Inr (v, r') \<Rightarrow> Inr (JsonNumber v, r'))
      else if c = CHR ''D'' then
        (case ReadPrimitive r of Inl e \<Rightarrow> Inl e | Inr (v, r') \<Rightarrow> Inr (JsonNumber (narrow v), r'))
      else if c = CHR ''S'' then
        (case DecodeStr raw r of Inl e \<Rightarrow> Inl e | Inr (str, r') \<Rightarrow> Inr (JsonString str, r'))
      else if c = CHR ''i'' then
        (case ReadPrimitive r of
           Inl e \<Rightarrow> Inl e | Inr (i :: 8 word, r') \<Rightarrow> Inr (JsonInteger (scast i), r'))
      else if c = CHR ''U'' then
        (case ReadPrimitive r of
           Inl e \<Rightarrow> Inl e | Inr (i :: 8 word, r') \<Rightarrow> Inr (JsonInteger (ucast i), r'))
      else if c = CHR ''I'' then
        (case ReadPrimitive r of
           Inl e \<Rightarrow> Inl e | Inr (i :: 16 word, r') \<Rightarrow> Inr (JsonInteger (scast i), r'))
      else if c = CHR ''l'' then
        (case ReadPrimitive r of
           Inl e \<Rightarrow> Inl e | Inr (i :: 32 word, r') \<Rightarrow> Inr (JsonInteger (scast i), r'))
      else if c = CHR ''L'' then
        (case ReadPrimitive r of Inl e \<Rightarrow> Inl e | Inr (i, r') \<Rightarrow> Inr (JsonInteger i, r'))
      else if c = CHR ''C'' then
        (case ReadPrimitive r of
           Inl e \<Rightarrow> Inl e | Inr (i :: 8 word, r') \<Rightarrow> Inr (JsonInteger (scast i), r'))
      else if c = CHR ''H'' then Inl (Fatal ''High precision number is not supported.'')
      else Inl (Error raw r ''Unknown construct''))"

text \<open>The typed-array branch of \<^verbatim>\<open>UBJReader::ParseArray\<close>, entered when the lookahead is \<^verbatim>\<open>$\<close>.\<close>

definition ParseArray_typed :: "string \<Rightarrow> string \<Rightarrow> error + (Json \<times> string)" where
  "ParseArray_typed raw rest =
     (case TypedArrayHeader raw rest of
        Inl e \<Rightarrow> Inl e
      | Inr (type, n, r) \<Rightarrow>
          if type = Char CHR ''d'' then typed F32Array (ParseTypedArray n r)
          else if type = Char CHR ''D'' then typed F64Array (ParseTypedArray n r)
          else if type = Char CHR ''i'' then typed I8Array (ParseTypedArray n r)
          else if type = Char CHR ''U'' then typed U8Array (ParseTypedArray n r)
          else if type = Char CHR ''I'' then typed I16Array (ParseTypedArray n r)
          else if type = Char CHR ''l'' then typed I32Array (ParseTypedArray n r)
          else if type = Char CHR ''L'' then typed I64Array (ParseTypedArray n r)
          else Inl (Fatal (''`'' @ [char_of type] @ ''` is not supported for typed array.'')))"

text \<open>The header \<^verbatim>\<open>#\<close> \<^verbatim>\<open>L\<close> count of a counted array, entered when the lookahead is \<^verbatim>\<open>#\<close>.\<close>

definition CountedArrayHeader :: "string \<Rightarrow> string \<Rightarrow> error + (nat \<times> string)" where
  "CountedArrayHeader raw rest =
     (case GetConsecutiveChar raw CHR ''L'' (snd (GetNextChar rest)) of
        Inl e \<Rightarrow> Inl e
      | Inr r \<Rightarrow>
          (case ReadPrimitive r of
             Inl e \<Rightarrow> Inl e
           | Inr (n :: 64 word, r') \<Rightarrow> if sint n < 0 then Inl LengthError else Inr (unat n, r')))"

text \<open>
  \<^verbatim>\<open>UBJReader::Parse\<close>, \<^verbatim>\<open>ParseArray\<close> and \<^verbatim>\<open>ParseObject\<close>. Every call and every loop iteration
  takes one unit of fuel.
\<close>

function UBJReader_Parse :: "(64 word \<Rightarrow> 32 word) \<Rightarrow> string \<Rightarrow> nat \<Rightarrow> string \<Rightarrow> error + (Json \<times> string)"
  and UBJReader_ParseArray :: "(64 word \<Rightarrow> 32 word) \<Rightarrow> string \<Rightarrow> nat \<Rightarrow> string \<Rightarrow> error + (Json \<times> string)"
  and ParseArray_counted :: "(64 word \<Rightarrow> 32 word) \<Rightarrow> string \<Rightarrow> nat \<Rightarrow> nat \<Rightarrow> Json list \<Rightarrow> string \<Rightarrow> error + (Json \<times> string)"
  and ParseArray_plain :: "(64 word \<Rightarrow> 32 word) \<Rightarrow> string \<Rightarrow> nat \<Rightarrow> Json list \<Rightarrow> string \<Rightarrow> error + (Json \<times> string)"
  and UBJReader_ParseObject :: "(64 word \<Rightarrow> 32 word) \<Rightarrow> string \<Rightarrow> nat \<Rightarrow> (string \<times> Json) list \<Rightarrow> string \<Rightarrow> error + (Json \<times> string)" where
  "UBJReader_Parse narrow raw 0 rest = Inl OutOfFuel"
| "UBJReader_Parse narrow raw (Suc fuel) rest =
     (if PeekNextChar rest = - 1 then Inr (JsonNull, rest)
      else if hd rest = CHR ''{'' then UBJReader_ParseObject narrow raw fuel [] (tl rest)
      else if hd rest = CHR ''['' then UBJReader_ParseArray narrow raw fuel (tl rest)
      else UBJReader_ParseValue narrow raw (hd rest) (tl rest))"
| "UBJReader_ParseArray narrow raw 0 rest = Inl OutOfFuel"
| "UBJReader_ParseArray narrow raw (Suc fuel) rest =
     (if PeekNextChar rest = Char CHR ''$'' then ParseArray_typed raw rest
      else if PeekNextChar rest = Char CHR ''#'' then
        (case CountedArrayHeader raw rest of
           Inl e \<Rightarrow> Inl e
         | Inr (n, r) \<Rightarrow> ParseArray_counted narrow raw fuel n [] r)
      else ParseArray_plain narrow raw fuel [] rest)"
| "ParseArray_counted narrow raw 0 n results rest = Inl OutOfFuel"
| "ParseArray_counted narrow raw (Suc fuel) n results rest =
     (if n = 0 then Inr (JsonArray results, rest)
      else
        case UBJReader_Parse narrow raw fuel rest of
          Inl e \<Rightarrow> Inl e
        | Inr (v, r) \<Rightarrow> ParseArray_counted narrow raw fuel (n - 1) (results @ [v]) r)"
| "ParseArray_plain narrow raw 0 results rest = Inl OutOfFuel"
| "ParseArray_plain narrow raw (Suc fuel) results rest =
     (if PeekNextChar rest \<noteq> Char CHR '']'' then
        (case UBJReader_Parse narrow raw fuel rest of
           Inl e \<Rightarrow> Inl e
         | Inr (v, r) \<Rightarrow> ParseArray_plain narrow raw fuel (results @ [v]) r)
      else
        case GetConsecutiveChar raw CHR '']'' rest of
          Inl e \<Rightarrow> Inl e
        | Inr r \<Rightarrow> Inr (JsonArray results, r))"
| "UBJReader_ParseObject narrow raw 0 results rest = Inl OutOfFuel"
| "UBJReader_ParseObject narrow raw (Suc fuel) results rest =
     (if PeekNextChar rest \<noteq> Char CHR ''}'' then
        (case DecodeStr raw rest of
           Inl e \<Rightarrow> Inl e
         | Inr (str, r) \<Rightarrow>
             (case UBJReader_Parse narrow raw fuel r of
                Inl e \<Rightarrow> Inl e
              | Inr (v, r') \<Rightarrow> UBJReader_ParseObject narrow raw fuel (Map_emplace str v results) r'))
      else
        case GetConsecutiveChar raw CHR ''}'' rest of
          Inl e \<Rightarrow> Inl e
        | Inr r \<Rightarrow> Inr (JsonObject results, r))"
  by pat_completeness auto
termination
  by (relation "measure (\<lambda>x. case x of
        Inl (Inl (_, _, fuel, _)) \<Rightarrow> fuel
      | Inl (Inr (_, _, fuel, _)) \<Rightarrow> fuel
      | Inr (Inl (_, _, fuel, _)) \<Rightarrow> fuel
      | Inr (Inr (Inl (_, _, fuel, _))) \<Rightarrow> fuel
      | Inr (Inr (Inr (_, _, fuel, _))) \<Rightarrow> fuel)")
    auto

text \<open>\<^verbatim>\<open>UBJReader::Load\<close> and the two binary branches of \<^verbatim>\<open>Json::Load\<close> and \<^verbatim>\<open>Json::Dump\<close>.\<close>

definition UBJReader_Load :: "(64 word \<Rightarrow> 32 word) \<Rightarrow> nat \<Rightarrow> string \<Rightarrow> error + Json" where
  "UBJReader_Load narrow fuel raw =
     (case UBJReader_Parse narrow raw fuel raw of Inl e \<Rightarrow> Inl e | Inr (json, _) \<Rightarrow> Inr json)"

definition Dump_binary :: "Json \<Rightarrow> string" where
  "Dump_binary json = UBJWriter_Save json"


subsection \<open>The documents of the binary format\<close>

text \<open>
  The documents the binary round trip is stated for. A size fits \<^verbatim>\<open>int64_t\<close>, as the size of
  every C++ container does; the entries of an \<^verbatim>\<open>Object\<close> are in the order of its
  \<^verbatim>\<open>std::map\<close>, by strictly increasing key; and no \<^verbatim>\<open>U16Array\<close>, \<^verbatim>\<open>U32Array\<close> or \<^verbatim>\<open>U64Array\<close>
  occurs, the kinds \<^verbatim>\<open>WriteTypedArray\<close> and \<^verbatim>\<open>UBJReader::ParseArray\<close> have no type code for.
\<close>

fun encodable :: "Json \<Rightarrow> bool"
  and encodable_list :: "Json list \<Rightarrow> bool"
  and encodable_map :: "(string \<times> Json) list \<Rightarrow> bool" where
  "encodable JsonNull = True"
| "encodable (JsonBoolean b) = True"
| "encodable (JsonInteger i) = True"
| "encodable (JsonNumber val) = True"
| "encodable (JsonString str) = (length str < 2 ^ 63)"
| "encodable (JsonArray vec) = (length vec < 2 ^ 63 \<and> encodable_list vec)"
| "encodable (JsonObject obj) = (sorted_wrt (<) (map fst obj) \<and> encodable_map obj)"
| "encodable (F32Array vec) = (length vec < 2 ^ 63)"
| "encodable (F64Array vec) = (length vec < 2 ^ 63)"
| "encodable (I8Array vec) = (length vec < 2 ^ 63)"
| "encodable (U8Array vec) = (length vec < 2 ^ 63)"
| "encodable (I16Array vec) = (length vec < 2 ^ 63)"
| "encodable (I32Array vec) = (length vec < 2 ^ 63)"
| "encodable (I64Array vec) = (length vec < 2 ^ 63)"
| "encodable (U16Array vec) = False"
| "encodable (U32Array vec) = False"
| "encodable (U64Array vec) = False"
| "encodable_list [] = True"
| "encodable_list (v # vec) = (encodable v \<and> encodable_list vec)"
| "encodable_map [] = True"
| "encodable_map ((key, v) # obj) = (length key < 2 ^ 63 \<and> encodable v \<and> encodable_map obj)"

text \<open>No \<^verbatim>\<open>F64Array\<close> of the document holds a NaN.\<close>

fun nan_free :: "Json \<Rightarrow> bool"
  and nan_free_list :: "Json list \<Rightarrow> bool"
  and nan_free_map :: "(string \<times> Json) list \<Rightarrow> bool" where
  "nan_free (F64Array vec) = (\<forall>x\<in>set vec. \<not> isnan64 x)"
| "nan_free (JsonArray vec) = nan_free_list vec"
| "nan_free (JsonObject obj) = nan_free_map obj"
| "nan_free JsonNull = True"
| "nan_free (JsonBoolean b) = True"
| "nan_free (JsonInteger i) = True"
| "nan_free (JsonNumber val) = True"
| "nan_free (JsonString str) = True"
| "nan_free (F32Array vec) = True"
| "nan_free (I8Array vec) = True"
| "nan_free (U8Array vec) = True"
| "nan_free (I16Array vec) = True"
| "nan_free (I32Array vec) = True"
| "nan_free (I64Array vec) = True"
| "nan_free (U16Array vec) = True"
| "nan_free (U32Array vec) = True"
| "nan_free (U64Array vec) = True"
| "nan_free_list [] = True"
| "nan_free_list (v # vec) = (nan_free v \<and> nan_free_list vec)"
| "nan_free_map [] = True"
| "nan_free_map ((key, v) # obj) = (nan_free v \<and> nan_free_map obj)"

text \<open>Fuel that is enough for the binary reader to read a document back.\<close>

fun UBJ_fuel :: "Json \<Rightarrow> nat"
  and UBJ_fuel_list :: "Json list \<Rightarrow> nat"
  and UBJ_fuel_map :: "(string \<times> Json) list \<Rightarrow> nat" where
  "UBJ_fuel (JsonArray vec) = Suc (Suc (UBJ_fuel_list vec))"
| "UBJ_fuel (JsonObject obj) = Suc (UBJ_fuel_map obj)"
| "UBJ_fuel JsonNull = Suc (Suc 0)"
| "UBJ_fuel (JsonBoolean b) = Suc (Suc 0)"
| "UBJ_fuel (JsonInteger i) = Suc (Suc 0)"
| "UBJ_fuel (JsonNumber val) = Suc (Suc 0)"
| "UBJ_fuel (JsonString str) = Suc (Suc 0)"
| "UBJ_fuel (F32Array vec) = Suc (Suc 0)"
| "UBJ_fuel (F64Array vec) = Suc (Suc 0)"
| "UBJ_fuel (I8Array vec) = Suc (Suc 0)"
| "UBJ_fuel (U8Array vec) = Suc (Suc 0)"
| "UBJ_fuel (I16Array vec) = Suc (Suc 0)"
| "UBJ_fuel (I32Array vec) = Suc (Suc 0)"
| "UBJ_fuel (I64Array vec) = Suc (Suc 0)"
| "UBJ_fuel (U16Array vec) = Suc (Suc 0)"
| "UBJ_fuel (U32Array vec) = Suc (Suc 0)"
| "UBJ_fuel (U64Array vec) = Suc (Suc 0)"
| "UBJ_fuel_list [] = Suc 0"
| "UBJ_fuel_list (v # vec) = Suc (UBJ_fuel v + UBJ_fuel_list vec)"
| "UBJ_fuel_map [] = Suc 0"
| "UBJ_fuel_map ((key, v) # obj) = Suc (UBJ_fuel v + UBJ_fuel_map obj)"

section \<open>Text reader\<close>

definition IsSpace :: "int \<Rightarrow> bool" where
  "IsSpace c = (c = Char CHR '' '' \<or> c = Char (CHR 0x0A) \<or> c = Char (CHR 0x0D) \<or> c = Char (CHR 0x09))"

text \<open>\<^verbatim>\<open>JsonReader::SkipSpaces\<close>.\<close>

fun SkipSpaces :: "string \<Rightarrow> string" where
  "SkipSpaces [] = []"
| "SkipSpaces (c # r) = (if IsSpace (Char c) then SkipSpaces r else c # r)"

text \<open>
  Modelled from the spec: \<^verbatim>\<open>GetNextNonSpaceChar\<close> and \<^verbatim>\<open>Expect\<close> are declared in \<^verbatim>\<open>json_io.h\<close>,
  which is not among the sources. The first skips whitespace and consumes the next character;
  the second raises the syntax error for a character other than the expected one, at the
  current cursor position.
\<close>

definition GetNextNonSpaceChar :: "string \<Rightarrow> int \<times> string" where
  "GetNextNonSpaceChar rest = GetNextChar (SkipSpaces rest)"

definition Expect :: "string \<Rightarrow> string \<Rightarrow> char \<Rightarrow> int \<Rightarrow> error" where
  "Expect raw rest c got = Expecting c got (Pos raw rest)"

text \<open>A run of \<^verbatim>\<open>GetConsecutiveChar\<close> calls, one for each character of \<open>cs\<close>.\<close>

fun GetConsecutiveChars :: "string \<Rightarrow> string \<Rightarrow> string \<Rightarrow> error + string" where
  "GetConsecutiveChars raw [] rest = Inr rest"
| "GetConsecutiveChars raw (c # cs) rest =
     (case GetConsecutiveChar raw c rest of
        Inl e \<Rightarrow> Inl e
      | Inr r \<Rightarrow> GetConsecutiveChars raw cs r)"

text \<open>
  The loop of \<^verbatim>\<open>JsonReader::ParseString\<close>, after the opening quote; \<open>str\<close> is the string
  built so far. At the end of the buffer \<^verbatim>\<open>GetNextChar\<close> gives \<open>-1\<close>, which is neither a
  backslash nor a quote and then fails the \<^verbatim>\<open>EOF\<close> test.
\<close>

fun ParseString_loop :: "string \<Rightarrow> string \<Rightarrow> string \<Rightarrow> error + (Json \<times> string)" where
  "ParseString_loop raw str [] = Inl (Expect raw [] (CHR 0x22) (- 1))"
| "ParseString_loop raw str (ch # r) =
     (if ch = CHR 0x5C then
        (case r of
           [] \<Rightarrow> Inl (Error raw [] ''Unknown escape'')
         | next # r' \<Rightarrow>
             if next = CHR ''r'' then ParseString_loop raw (str @ [CHR 0x0D]) r'
             else if next = CHR ''n'' then ParseString_loop raw (str @ [CHR 0x0A]) r'
             else if next = CHR 0x5C then ParseString_loop raw (str @ [CHR 0x5C]) r'
             else if next = CHR ''t'' then ParseString_loop raw (str @ [CHR 0x09]) r'
             else if next = CHR 0x22 then ParseString_loop raw (str @ [CHR 0x22]) r'
             else if next = CHR ''u'' then ParseString_loop raw (str @ [ch, CHR ''u'']) r'
             else Inl (Error raw r' ''Unknown escape''))
      else if ch = CHR 0x22 then Inr (JsonString str, r)
      else if Char ch = - 1 \<or> ch = CHR 0x0D \<or> ch = CHR 0x0A then Inl (Expect raw r (CHR 0x22) (Char ch))
      else ParseString_loop raw (str @ [ch]) r)"

definition JsonReader_ParseString :: "string \<Rightarrow> string \<Rightarrow> error + (Json \<times> string)" where
  "JsonReader_ParseString raw rest =
     (case GetConsecutiveChar raw (CHR 0x22) rest of
        Inl e \<Rightarrow> Inl e
      | Inr r \<Rightarrow> ParseString_loop raw [] r)"

text \<open>\<^verbatim>\<open>JsonReader::ParseNull\<close>.\<close>

definition JsonReader_ParseNull :: "string \<Rightarrow> string \<Rightarrow> error + (Json \<times> string)" where
  "JsonReader_ParseNull raw rest =
     (let (c0, r0) = GetNextNonSpaceChar rest;
          (c1, r1) = GetNextChar r0;
          (c2, r2) = GetNextChar r1;
          (c3, r3) = GetNextChar r2;
          buffer = map char_of [c0, c1, c2, c3]
      in if buffer \<noteq> ''null''
         then Inl (Error raw r3 (''Expecting null value '' @ [CHR 0x22] @ ''null'' @ [CHR 0x22]))
         else Inr (JsonNull, r3))"

text \<open>\<^verbatim>\<open>JsonReader::ParseBoolean\<close>.\<close>

definition JsonReader_ParseBoolean :: "string \<Rightarrow> string \<Rightarrow> error + (Json \<times> string)" where
  "JsonReader_ParseBoolean raw rest =
     (let (ch, r) = GetNextNonSpaceChar rest
      in if ch = Char CHR ''t'' then
           (case GetConsecutiveChars raw ''rue'' r of
              Inl e \<Rightarrow> Inl e
            | Inr r' \<Rightarrow> Inr (JsonBoolean True, r'))
         else
           (case GetConsecutiveChars raw ''alse'' r of
              Inl e \<Rightarrow> Inl e
            | Inr r' \<Rightarrow> Inr (JsonBoolean False, r')))"

subsection \<open>Numbers\<close>

text \<open>
  \<^verbatim>\<open>ParseNumber\<close> walks a \<^verbatim>\<open>char const*\<close> over the buffer; \<open>deref p\<close> is \<^verbatim>\<open>*p\<close>, which at the
  end of the buffer is the terminating NUL.
\<close>

definition deref :: "string \<Rightarrow> char" where
  "deref p = (case p of [] \<Rightarrow> CHR 0x00 | c # _ \<Rightarrow> c)"

definition is_digit :: "char \<Rightarrow> bool" where
  "is_digit c = (CHR ''0'' \<le> c \<and> c \<le> CHR ''9'')"

text \<open>
  \<^verbatim>\<open>while (*p >= '0' && *p <= '9') { i = i * 10 + (*p - '0'); p++; }\<close> on an \<^verbatim>\<open>int64_t\<close>, whose
  arithmetic wraps around in two's complement.
\<close>

fun digits_loop :: "64 word \<Rightarrow> string \<Rightarrow> 64 word \<times> string" where
  "digits_loop i [] = (i, [])"
| "digits_loop i (c # p) =
     (if is_digit c then digits_loop (i * 10 + (of_char c - 48)) p else (i, c # p))"

text \<open>
  The exponent part: \<open>None\<close> is the failure \<^verbatim>\<open>Error("Expecting digit")\<close>, otherwise whether an
  exponent was read and the pointer after it.
\<close>

definition exponent_part :: "string \<Rightarrow> (bool \<times> string) option" where
  "exponent_part p =
     (if deref p = CHR ''E'' \<or> deref p = CHR ''e'' then
        let p1 = tl p;
            p2 = (if deref p1 = CHR ''-'' \<or> deref p1 = CHR ''+'' then tl p1 else p1)
        in if is_digit (deref p2) then Some (True, snd (digits_loop 0 (tl p2))) else None
      else Some (False, p))"

text \<open>
  \<^verbatim>\<open>JsonReader::ParseNumber\<close>. \<open>strtof\<close> is the conversion of the literal's text to a float
  (\<^verbatim>\<open>from_chars\<close>, with \<^verbatim>\<open>std::strtof\<close> as its fallback). The two infinities and the quiet NaN
  are their binary32 bit patterns. The failure of the exponent is reported before the cursor
  is moved, so at the position where the number starts.
\<close>

definition JsonReader_ParseNumber :: "(string \<Rightarrow> 32 word) \<Rightarrow> string \<Rightarrow> string \<Rightarrow> error + (Json \<times> string)" where
  "JsonReader_ParseNumber strtof raw rest =
     (if deref rest = CHR ''N'' then
        (case GetConsecutiveChars raw ''NaN'' rest of
           Inl e \<Rightarrow> Inl e
         | Inr r \<Rightarrow> Inr (JsonNumber 0x7FC00000, r))
      else
        let negative = (deref rest = CHR ''-'');
            p = (if deref rest = CHR ''-'' \<or> deref rest = CHR ''+'' then tl rest else rest)
        in if deref p = CHR ''I'' then
             (case GetConsecutiveChars raw ''Infinity'' p of
                Inl e \<Rightarrow> Inl e
              | Inr r \<Rightarrow> Inr (JsonNumber (if negative then 0xFF800000 else 0x7F800000), r))
           else
             let p0 = (if deref p = CHR ''0'' then tl p else p);
                 (i1, p1) = digits_loop 0 p0;
                 has_dot = (deref p1 = CHR ''.'');
                 (i, p2) = (if has_dot then digits_loop i1 (tl p1) else (i1, p1))
             in case exponent_part p2 of
                  None \<Rightarrow> Inl (Error raw rest ''Expecting digit'')
                | Some (has_exp, p3) \<Rightarrow>
                    if has_dot \<or> has_exp
                    then Inr (JsonNumber (strtof (take (length rest - length p3) rest)), p3)
                    else Inr (JsonInteger (if negative then - i else i), p3))"

subsection \<open>Values\<close>

text \<open>
  The branches of \<^verbatim>\<open>JsonReader::Parse\<close> that read one value without recursion; \<open>c\<close> is the
  lookahead and \<open>rest\<close> the input at the cursor.
\<close>

definition JsonReader_ParseValue :: "(string \<Rightarrow> 32 word) \<Rightarrow> string \<Rightarrow> int \<Rightarrow> string \<Rightarrow> error + (Json \<times> string)" where
  "JsonReader_ParseValue strtof raw c rest =
     (if c = Char CHR ''-'' \<or> (Char CHR ''0'' \<le> c \<and> c \<le> Char CHR ''9'')
         \<or> c = Char CHR ''N'' \<or> c = Char CHR ''I''
      then JsonReader_ParseNumber strtof raw rest
      else if c = Char (CHR 0x22) then JsonReader_ParseString raw rest
      else if c = Char CHR ''t'' \<or> c = Char CHR ''f'' then JsonReader_ParseBoolean raw rest
      else if c = Char CHR ''n'' then JsonReader_ParseNull raw rest
      else Inl (Error raw rest ''Unknown construct''))"

text \<open>
  The head of one iteration of the loop of \<^verbatim>\<open>JsonReader::ParseObject\<close>: the key and the colon.
  \<^verbatim>\<open>get<String>(key)\<close> is the string of the node \<^verbatim>\<open>ParseString\<close> returned.
\<close>

definition ParseObject_key :: "string \<Rightarrow> string \<Rightarrow> error + (string \<times> string)" where
  "ParseObject_key raw rest =
     (let r = SkipSpaces rest; ch = PeekNextChar r
      in if ch = - 1 then
           Inl (CheckFailed (''cursor_.Pos(): '' @ to_string (Pos raw r) @ '', raw_str_.size():'' @
                             to_string (length raw)))
         else if ch \<noteq> Char (CHR 0x22) then Inl (Expect raw r (CHR 0x22) ch)
         else
           case JsonReader_ParseString raw r of
             Inl e \<Rightarrow> Inl e
           | Inr (key, r1) \<Rightarrow>
               let (ch, r2) = GetNextNonSpaceChar r1
               in if ch \<noteq> Char CHR '':'' then Inl (Expect raw r2 CHR '':'' ch)
                  else Inr ((case key of JsonString k \<Rightarrow> k | _ \<Rightarrow> []), r2))"

text \<open>
  \<^verbatim>\<open>JsonReader::Parse\<close>, \<^verbatim>\<open>ParseArray\<close> and \<^verbatim>\<open>ParseObject\<close> with their loops. Every call and
  every loop iteration takes one unit of fuel.
\<close>

function JsonReader_Parse :: "(string \<Rightarrow> 32 word) \<Rightarrow> string \<Rightarrow> nat \<Rightarrow> string \<Rightarrow> error + (Json \<times> string)"
  and JsonReader_ParseArray :: "(string \<Rightarrow> 32 word) \<Rightarrow> string \<Rightarrow> nat \<Rightarrow> string \<Rightarrow> error + (Json \<times> string)"
  and ParseArray_loop :: "(string \<Rightarrow> 32 word) \<Rightarrow> string \<Rightarrow> nat \<Rightarrow> Json list \<Rightarrow> string \<Rightarrow> error + (Json \<times> string)"
  and JsonReader_ParseObject :: "(string \<Rightarrow> 32 word) \<Rightarrow> string \<Rightarrow> nat \<Rightarrow> string \<Rightarrow> error + (Json \<times> string)"
  and ParseObject_loop :: "(string \<Rightarrow> 32 word) \<Rightarrow> string \<Rightarrow> nat \<Rightarrow> (string \<times> Json) list \<Rightarrow> string \<Rightarrow> error + (Json \<times> string)" where
  "JsonReader_Parse strtof raw 0 rest = Inl OutOfFuel"
| "JsonReader_Parse strtof raw (Suc fuel) rest =
     (if PeekNextChar (SkipSpaces rest) = - 1 then Inr (JsonNull, SkipSpaces rest)
      else if PeekNextChar (SkipSpaces rest) = Char CHR ''{''
        then JsonReader_ParseObject strtof raw fuel (SkipSpaces rest)
      else if PeekNextChar (SkipSpaces rest) = Char CHR ''[''
        then JsonReader_ParseArray strtof raw fuel (SkipSpaces rest)
      else JsonReader_ParseValue strtof raw (PeekNextChar (SkipSpaces rest)) (SkipSpaces rest))"
| "JsonReader_ParseArray strtof raw 0 rest = Inl OutOfFuel"
| "JsonReader_ParseArray strtof raw (Suc fuel) rest =
     (case GetConsecutiveChar raw CHR ''['' rest of
        Inl e \<Rightarrow> Inl e
      | Inr r \<Rightarrow> ParseArray_loop strtof raw fuel [] r)"
| "ParseArray_loop strtof raw 0 data rest = Inl OutOfFuel"
| "ParseArray_loop strtof raw (Suc fuel) data rest =
     (if PeekNextChar rest = Char CHR '']'' then
        (case GetConsecutiveChar raw CHR '']'' rest of
           Inl e \<Rightarrow> Inl e
         | Inr r \<Rightarrow> Inr (JsonArray data, r))
      else
        case JsonReader_Parse strtof raw fuel rest of
          Inl e \<Rightarrow> Inl e
        | Inr (obj, r) \<Rightarrow>
            if fst (GetNextNonSpaceChar r) = Char CHR '']''
              then Inr (JsonArray (data @ [obj]), snd (GetNextNonSpaceChar r))
            else if fst (GetNextNonSpaceChar r) \<noteq> Char CHR '',''
              then Inl (Expect raw (snd (GetNextNonSpaceChar r)) CHR '','' (fst (GetNextNonSpaceChar r)))
            else ParseArray_loop strtof raw fuel (data @ [obj]) (snd (GetNextNonSpaceChar r)))"
| "JsonReader_ParseObject strtof raw 0 rest = Inl OutOfFuel"
| "JsonReader_ParseObject strtof raw (Suc fuel) rest =
     (case GetConsecutiveChar raw CHR ''{'' rest of
        Inl e \<Rightarrow> Inl e
      | Inr r \<Rightarrow>
          if PeekNextChar (SkipSpaces r) = Char CHR ''}'' then
            (case GetConsecutiveChar raw CHR ''}'' (SkipSpaces r) of
               Inl e \<Rightarrow> Inl e
             | Inr r' \<Rightarrow> Inr (JsonObject [], r'))
          else ParseObject_loop strtof raw fuel [] (SkipSpaces r))"
| "ParseObject_loop strtof raw 0 data rest = Inl OutOfFuel"
| "ParseObject_loop strtof raw (Suc fuel) data rest =
     (case ParseObject_key raw rest of
        Inl e \<Rightarrow> Inl e
      | Inr (key, r) \<Rightarrow>
          (case JsonReader_Parse strtof raw fuel r of
             Inl e \<Rightarrow> Inl e
           | Inr (v, r1) \<Rightarrow>
               if fst (GetNextNonSpaceChar r1) = Char CHR ''}''
                 then Inr (JsonObject (Map_assign key v data), snd (GetNextNonSpaceChar r1))
               else if fst (GetNextNonSpaceChar r1) \<noteq> Char CHR '',''
                 then Inl (Expect raw (snd (GetNextNonSpaceChar r1)) CHR '','' (fst (GetNextNonSpaceChar r1)))
               else ParseObject_loop strtof raw fuel (Map_assign key v data) (snd (GetNextNonSpaceChar r1))))"
  by pat_completeness auto
termination
  by (relation "measure (\<lambda>x. case x of
        Inl (Inl (_, _, fuel, _)) \<Rightarrow> fuel
      | Inl (Inr (_, _, fuel, _)) \<Rightarrow> fuel
      | Inr (Inl (_, _, fuel, _)) \<Rightarrow> fuel
      | Inr (Inr (Inl (_, _, fuel, _))) \<Rightarrow> fuel
      | Inr (Inr (Inr (_, _, fuel, _))) \<Rightarrow> fuel)")
    auto

text \<open>\<^verbatim>\<open>JsonReader::Load\<close>, the text branch of \<^verbatim>\<open>Json::Load\<close>.\<close>

definition JsonReader_Load :: "(string \<Rightarrow> 32 word) \<Rightarrow> nat \<Rightarrow> string \<Rightarrow> error + Json" where
  "JsonReader_Load strtof fuel raw =
     (case JsonReader_Parse strtof raw fuel raw of Inl e \<Rightarrow> Inl e | Inr (json, _) \<Rightarrow> Inr json)"

section \<open>Text writer\<close>

text \<open>
  Modelled from the spec: \<^verbatim>\<open>to_chars\<close> for \<^verbatim>\<open>int64_t\<close> is declared in \<^verbatim>\<open>charconv.h\<close>, which is
  not among the sources. The spec's \<^verbatim>\<open>Integer\<close> text is the decimal digits with no leading zeros
  except the literal \<^verbatim>\<open>0\<close>; a negative value has a leading minus sign.
\<close>

definition to_chars_i64 :: "64 word \<Rightarrow> string" where
  "to_chars_i64 i =
     (if sint i < 0 then CHR ''-'' # to_string (nat (- sint i)) else to_string (nat (sint i)))"

text \<open>
  Modelled from the spec: \<^verbatim>\<open>json.cc\<close> defines no \<^verbatim>\<open>JsonWriter::Visit(F64Array const*)\<close>. The spec
  has the text writer degrade every typed array to an ordinary array of scalars, each element
  reboxed as \<^verbatim>\<open>Number\<close> or \<^verbatim>\<open>Integer\<close> per its element type; a \<^verbatim>\<open>Number\<close> holds a \<^verbatim>\<open>float\<close>, to
  which \<open>narrow\<close> converts a \<^verbatim>\<open>double\<close>.
\<close>

definition JsonWriter_Visit_F64Array :: "(32 word \<Rightarrow> string) \<Rightarrow> (64 word \<Rightarrow> 32 word) \<Rightarrow> 64 word list \<Rightarrow> string" where
  "JsonWriter_Visit_F64Array to_chars narrow vec = WriteArray (\<lambda>v. to_chars (narrow v)) vec"

text \<open>
  \<^verbatim>\<open>JsonWriter::Save\<close> with the \<^verbatim>\<open>JsonWriter::Visit\<close> overloads. Three functions of other files
  are parameters: \<open>to_chars\<close> is \<^verbatim>\<open>to_chars\<close> for \<^verbatim>\<open>float\<close> (\<^verbatim>\<open>charconv.h\<close>), \<open>EscapeU8\<close> is
  \<^verbatim>\<open>common::EscapeU8\<close> (\<^verbatim>\<open>common.h\<close>) and \<open>narrow\<close> is \<^verbatim>\<open>static_cast<float>(double)\<close>. Each typed
  array goes through \<^verbatim>\<open>WriteArray\<close> with the reboxing function of its \<^verbatim>\<open>Visit\<close>, \<^verbatim>\<open>to_i64\<close> for the
  integer kinds.
\<close>

fun JsonWriter_Save :: "(32 word \<Rightarrow> string) \<Rightarrow> (string \<Rightarrow> string) \<Rightarrow> (64 word \<Rightarrow> 32 word) \<Rightarrow> Json \<Rightarrow> string"
  and JsonWriter_elems :: "(32 word \<Rightarrow> string) \<Rightarrow> (string \<Rightarrow> string) \<Rightarrow> (64 word \<Rightarrow> 32 word) \<Rightarrow> Json list \<Rightarrow> string"
  and JsonWriter_fields :: "(32 word \<Rightarrow> string) \<Rightarrow> (string \<Rightarrow> string) \<Rightarrow> (64 word \<Rightarrow> 32 word) \<Rightarrow> (string \<times> Json) list \<Rightarrow> string" where
  "JsonWriter_Save to_chars EscapeU8 narrow JsonNull = ''null''"
| "JsonWriter_Save to_chars EscapeU8 narrow (JsonBoolean val) = (if val then ''true'' else ''false'')"
| "JsonWriter_Save to_chars EscapeU8 narrow (JsonInteger i) = to_chars_i64 i"
| "JsonWriter_Save to_chars EscapeU8 narrow (JsonNumber val) = to_chars val"
| "JsonWriter_Save to_chars EscapeU8 narrow (JsonString str) = CHR 0x22 # EscapeU8 str @ [CHR 0x22]"
| "JsonWriter_Save to_chars EscapeU8 narrow (JsonArray vec) =
     CHR ''['' # JsonWriter_elems to_chars EscapeU8 narrow vec @ '']''"
| "JsonWriter_Save to_chars EscapeU8 narrow (JsonObject obj) =
     CHR ''{'' # JsonWriter_fields to_chars EscapeU8 narrow obj @ ''}''"
| "JsonWriter_Save to_chars EscapeU8 narrow (F32Array vec) = WriteArray to_chars vec"
| "JsonWriter_Save to_chars EscapeU8 narrow (F64Array vec) = JsonWriter_Visit_F64Array to_chars narrow vec"
| "JsonWriter_Save to_chars EscapeU8 narrow (I8Array vec) = WriteArray (\<lambda>v. to_chars_i64 (scast v)) vec"
| "JsonWriter_Save to_chars EscapeU8 narrow (U8Array vec) = WriteArray (\<lambda>v. to_chars_i64 (ucast v)) vec"
| "JsonWriter_Save to_chars EscapeU8 narrow (I16Array vec) = WriteArray (\<lambda>v. to_chars_i64 (scast v)) vec"
| "JsonWriter_Save to_chars EscapeU8 narrow (U16Array vec) = WriteArray (\<lambda>v. to_chars_i64 (ucast v)) vec"
| "JsonWriter_Save to_chars EscapeU8 narrow (I32Array vec) = WriteArray (\<lambda>v. to_chars_i64 (scast v)) vec"
| "JsonWriter_Save to_chars EscapeU8 narrow (U32Array vec) = WriteArray (\<lambda>v. to_chars_i64 (ucast v)) vec"
| "JsonWriter_Save to_chars EscapeU8 narrow (I64Array vec) = WriteArray (\<lambda>v. to_chars_i64 v) vec"
| "JsonWriter_Save to_chars EscapeU8 narrow (U64Array vec) = WriteArray (\<lambda>v. to_chars_i64 v) vec"
| "JsonWriter_elems to_chars EscapeU8 narrow [] = []"
| "JsonWriter_elems to_chars EscapeU8 narrow [v] = JsonWriter_Save to_chars EscapeU8 narrow v"
| "JsonWriter_elems to_chars EscapeU8 narrow (v # w # vec) =
     JsonWriter_Save to_chars EscapeU8 narrow v @ CHR '','' #
       JsonWriter_elems to_chars EscapeU8 narrow (w # vec)"
| "JsonWriter_fields to_chars EscapeU8 narrow [] = []"
| "JsonWriter_fields to_chars EscapeU8 narrow [(key, v)] =
     CHR 0x22 # EscapeU8 key @ [CHR 0x22] @ CHR '':'' # JsonWriter_Save to_chars EscapeU8 narrow v"
| "JsonWriter_fields to_chars EscapeU8 narrow ((key, v) # kv # obj) =
     CHR 0x22 # EscapeU8 key @ [CHR 0x22] @ CHR '':'' # JsonWriter_Save to_chars EscapeU8 narrow v @
       CHR '','' # JsonWriter_fields to_chars EscapeU8 narrow (kv # obj)"


subsection \<open>The scalar-equivalent array of a typed array\<close>




subsection \<open>The text of a float\<close>

text \<open>
  Modelled from the spec: \<^verbatim>\<open>to_chars\<close> and \<^verbatim>\<open>from_chars\<close> for \<^verbatim>\<open>float\<close> are declared in
  \<^verbatim>\<open>charconv.h\<close>, which is not among the sources. The spec has the text of a \<^verbatim>\<open>Number\<close> be the
  shortest round-trippable decimal representation of the 32-bit float, in the number grammar
  of the reader: optional sign, integer part, optional fractional part, optional exponent,
  where a \<^verbatim>\<open>.\<close> or an exponent marks the literal as a float; the bare literals \<^verbatim>\<open>NaN\<close>,
  \<^verbatim>\<open>Infinity\<close> and \<^verbatim>\<open>-Infinity\<close> stand for the special values. \<open>float_literal\<close> recognises
  a literal of that grammar that is marked as a float and whose only sign is a minus.
  \<open>float_text\<close> is what the two conversions owe a float \<open>x\<close>: the text of a NaN is \<^verbatim>\<open>NaN\<close>,
  the text of an infinity is \<^verbatim>\<open>Infinity\<close> or \<^verbatim>\<open>-Infinity\<close>, the text of any other float is such a
  literal, and converting that literal back gives a float that is an equal \<^verbatim>\<open>Number\<close>. Neither
  definition mentions the reader.
\<close>

definition starts_with :: "char \<Rightarrow> string \<Rightarrow> bool" where
  "starts_with c s = (case s of [] \<Rightarrow> False | x # _ \<Rightarrow> x = c)"

definition starts_with_digit :: "string \<Rightarrow> bool" where
  "starts_with_digit s = (case s of [] \<Rightarrow> False | x # _ \<Rightarrow> is_digit x)"



subsection \<open>Integer values\<close>



section \<open>Facts about the primitives\<close>

declare to_string.simps [simp del]

lemma to_string_digit: "n < 10 \<Longrightarrow> to_string n = [char_of (48 + n)]"
  by (simp add: to_string.simps)

lemma be_bytes_numeral:
  "be_bytes (numeral k) n = be_bytes (pred_numeral k) (n div 256) @ [char_of n]"
proof -
  have "numeral k = Suc (pred_numeral k)" by (rule numeral_eq_Suc)
  then show ?thesis by (simp only: be_bytes.simps)
qed

lemmas char_eval = char_of_def bit_Suc_0_iff

lemma length_be_bytes [simp]: "length (be_bytes k n) = k"
  by (induction k arbitrary: n) auto

lemma be_val_snoc: "be_val (bs @ [c]) = be_val bs * 256 + of_char c"
  by (simp add: be_val_def)

lemma be_val_be_bytes: "be_val (be_bytes k n) = n mod 256 ^ k"
proof (induction k arbitrary: n)
  case 0
  show ?case by (simp add: be_val_def)
next
  case (Suc k)
  have "be_val (be_bytes (Suc k) n) = (n div 256) mod 256 ^ k * 256 + n mod 256"
    by (simp add: be_val_snoc Suc)
  also have "\<dots> = n mod 256 ^ Suc k"
    by (simp add: mod_mult2_eq mult.commute)
  finally show ?case .
qed

lemma length_WritePrimitive [simp]:
  "length (WritePrimitive (w :: 'a::len word)) = LENGTH('a) div 8"
  by (simp add: WritePrimitive_def)

text \<open>A primitive whose width is a whole number of bytes is read back as it was written.\<close>

lemma ReadPrimitive_WritePrimitive:
  fixes w :: "'a::len word"
  assumes "8 dvd LENGTH('a)"
  shows "ReadPrimitive (WritePrimitive w @ rest) = Inr (w, rest)"
proof -
  obtain k where k: "LENGTH('a) = 8 * k" using assms by (auto simp: dvd_def)
  have "(256::nat) ^ k = 2 ^ LENGTH('a)"
    by (simp add: k power_mult)
  then have "unat w mod 256 ^ k = unat w"
    by simp
  then show ?thesis
    by (simp add: ReadPrimitive_def WritePrimitive_def k be_val_be_bytes)
qed

text \<open>Narrowing a signed value that fits the narrow type and widening it again is the identity.\<close>

lemma scast_ucast_in_range:
  fixes i :: "'a::len word"
  assumes len: "LENGTH('b::len) \<le> LENGTH('a)"
    and lo: "- (2 ^ (LENGTH('b) - 1)) \<le> sint i"
    and hi: "sint i < 2 ^ (LENGTH('b) - 1)"
  shows "scast (ucast i :: 'b word) = i"
proof -
  have "sint (ucast i :: 'b word) = signed_take_bit (LENGTH('b) - Suc 0) (uint i)"
    by (rule signed_ucast_eq)
  also have "\<dots> = signed_take_bit (LENGTH('b) - Suc 0) (signed_take_bit (LENGTH('a) - Suc 0) (uint i))"
    using len by (simp add: min_def)
  also have "\<dots> = signed_take_bit (LENGTH('b) - Suc 0) (sint i)"
    by (simp add: sint_uint)
  also have "\<dots> = sint i"
    using lo hi by (simp add: signed_take_bit_int_eq_self)
  finally have "sint (ucast i :: 'b word) = sint i" .
  then show ?thesis
    by (simp add: scast_eq)
qed

lemma of_char_int_range: "0 \<le> (of_char c :: int) \<and> (of_char c :: int) < 256"
proof -
  have "(of_char c :: int) = int (of_char c)" by (rule of_nat_of_char [symmetric])
  moreover have "(of_char c :: nat) < 256" by simp
  ultimately show ?thesis by linarith
qed

lemma Char_inject [simp]: "Char a = Char b \<longleftrightarrow> a = b"
proof
  assume h: "Char a = Char b"
  from h of_char_int_range [of a] of_char_int_range [of b]
  have "(of_char a :: int) = of_char b"
    by (simp add: Char_def split: if_splits)
  then show "a = b" by (rule of_char_eqI)
qed simp

lemma Char_eq_minus1: "Char c = - 1 \<longleftrightarrow> c = CHR 0xFF"
proof -
  have "Char (CHR 0xFF) = - 1" by (simp add: Char_def)
  then show ?thesis by (metis Char_inject)
qed

lemma PeekNextChar_Cons [simp]: "PeekNextChar (c # r) = Char c"
  by (simp add: PeekNextChar_def)

lemma PeekNextChar_Nil [simp]: "PeekNextChar [] = - 1"
  by (simp add: PeekNextChar_def)

lemma GetNextChar_Cons [simp]: "GetNextChar (c # r) = (Char c, r)"
  by (simp add: GetNextChar_def)

lemma GetNextChar_Nil [simp]: "GetNextChar [] = (- 1, [])"
  by (simp add: GetNextChar_def)

lemma GetConsecutiveChar_Cons [simp]: "GetConsecutiveChar raw c (c # r) = Inr r"
  by (simp add: GetConsecutiveChar_def)

section \<open>Binary integers\<close>

lemma UBJ_integer_roundtrip:
  "UBJReader_Parse narrow raw (Suc fuel) (UBJWriter_Visit_Integer i @ rest) = Inr (JsonInteger i, rest)"
proof -
  have c8: "- 128 < sint i \<Longrightarrow> sint i < 127 \<Longrightarrow> scast (ucast i :: 8 word) = i"
    by (rule scast_ucast_in_range) simp_all
  have c16: "- 32768 < sint i \<Longrightarrow> sint i < 32767 \<Longrightarrow> scast (ucast i :: 16 word) = i"
    by (rule scast_ucast_in_range) simp_all
  have c32: "- 2147483648 < sint i \<Longrightarrow> sint i < 2147483647 \<Longrightarrow> scast (ucast i :: 32 word) = i"
    by (rule scast_ucast_in_range) simp_all
  show ?thesis
    by (simp add: UBJWriter_Visit_Integer_def UBJReader_ParseValue_def Char_eq_minus1
        ReadPrimitive_WritePrimitive c8 c16 c32)
qed

text \<open>
  C3, as the claim states it, fails: the claim has 200 written with marker \<^verbatim>\<open>i\<close> and 40000
  with marker \<^verbatim>\<open>I\<close>. 200 is outside the int8 range and 40000 outside the int16 range; the
  writer emits \<^verbatim>\<open>I\<close> for 200 and \<^verbatim>\<open>l\<close> for 40000.
\<close>

theorem integer_marker_counterexample:
  "hd (Dump_binary (JsonInteger 200)) \<noteq> CHR ''i'' \<and> hd (Dump_binary (JsonInteger 40000)) \<noteq> CHR ''I''"
  by (simp add: Dump_binary_def UBJWriter_Visit_Integer_def)

text \<open>
  C3, amended. For an integer that is not the least or the greatest value of int8, int16 or
  int32, the binary writer chooses the smallest of the markers \<^verbatim>\<open>i\<close>, \<^verbatim>\<open>I\<close>, \<^verbatim>\<open>l\<close>, \<^verbatim>\<open>L\<close> whose
  range holds the value: 200 is written with \<^verbatim>\<open>I\<close>, 40000 with \<^verbatim>\<open>l\<close>, 3000000000 with \<^verbatim>\<open>L\<close>.
  Every integer, whatever its marker, is read back by the binary reader as the same integer.
\<close>

theorem integer_width_selection:
  fixes i :: "64 word"
  shows "(- 128 < sint i \<and> sint i < 127 \<longrightarrow> hd (Dump_binary (JsonInteger i)) = CHR ''i'')
    \<and> ((sint i < - 128 \<or> 127 < sint i) \<and> - 32768 < sint i \<and> sint i < 32767
          \<longrightarrow> hd (Dump_binary (JsonInteger i)) = CHR ''I'')
    \<and> ((sint i < - 32768 \<or> 32767 < sint i) \<and> - 2147483648 < sint i \<and> sint i < 2147483647
          \<longrightarrow> hd (Dump_binary (JsonInteger i)) = CHR ''l'')
    \<and> (sint i < - 2147483648 \<or> 2147483647 < sint i
          \<longrightarrow> hd (Dump_binary (JsonInteger i)) = CHR ''L'')
    \<and> hd (Dump_binary (JsonInteger 200)) = CHR ''I''
    \<and> hd (Dump_binary (JsonInteger 40000)) = CHR ''l''
    \<and> hd (Dump_binary (JsonInteger 3000000000)) = CHR ''L''
    \<and> UBJReader_Load narrow (Suc fuel) (Dump_binary (JsonInteger i)) = Inr (JsonInteger i)"
proof -
  have "UBJReader_Parse narrow (Dump_binary (JsonInteger i)) (Suc fuel)
          (UBJWriter_Visit_Integer i @ []) = Inr (JsonInteger i, [])"
    by (rule UBJ_integer_roundtrip)
  then have "UBJReader_Load narrow (Suc fuel) (Dump_binary (JsonInteger i)) = Inr (JsonInteger i)"
    by (simp add: UBJReader_Load_def Dump_binary_def)
  then show ?thesis
    by (simp add: Dump_binary_def UBJWriter_Visit_Integer_def)
qed

theorem integer_width_selection_witness:
  "hd (Dump_binary (JsonInteger 5)) = CHR ''i''
   \<and> hd (Dump_binary (JsonInteger 200)) = CHR ''I''
   \<and> hd (Dump_binary (JsonInteger 40000)) = CHR ''l''
   \<and> hd (Dump_binary (JsonInteger 3000000000)) = CHR ''L''
   \<and> UBJReader_Load (\<lambda>_. 0) (Suc 0) (Dump_binary (JsonInteger 200)) = Inr (JsonInteger 200)"
  using integer_width_selection [of 5 "\<lambda>_. 0" 0]
    integer_width_selection [of 200 "\<lambda>_. 0" 0]
    integer_width_selection [of 40000 "\<lambda>_. 0" 0]
    integer_width_selection [of 3000000000 "\<lambda>_. 0" 0]
  by simp


section \<open>Equality of numbers\<close>

lemma isinf32_not_isnan32: "isinf32 w \<Longrightarrow> \<not> isnan32 w"
proof -
  assume "isinf32 w"
  then have h: "w AND 0x7FFFFFFF = 0x7F800000" by (simp add: isinf32_def)
  have "w AND 0x007FFFFF = (w AND 0x7FFFFFFF) AND 0x007FFFFF"
    by (simp add: word_bw_assocs)
  also have "\<dots> = 0" by (simp add: h)
  finally show ?thesis by (simp add: isnan32_def)
qed

text \<open>
  C2, as the claim states it, fails: the claim has \<^verbatim>\<open>Number(+Inf) == Number(-Inf)\<close> false.
  \<^verbatim>\<open>JsonNumber::operator==\<close> answers \<^verbatim>\<open>std::isinf(r_num)\<close> as soon as the left number is
  infinite, whatever the two signs: \<open>0x7F800000\<close> is \<open>+Inf\<close> and \<open>0xFF800000\<close> is \<open>-Inf\<close>.
\<close>

theorem number_equality_counterexample:
  "Json_eq (JsonNumber 0x7F800000) (JsonNumber 0xFF800000)"
  by (simp add: JsonNumber_eq_def isinf32_def)

text \<open>
  C2, amended. Two \<^verbatim>\<open>Number\<close> nodes are equal iff both are infinite (of either sign), or both
  are NaN, or both are finite and have the same value, that is, their difference is exactly
  0. In particular \<^verbatim>\<open>Number(NaN) == Number(NaN)\<close>, \<^verbatim>\<open>Number(+Inf) == Number(+Inf)\<close> and
  \<^verbatim>\<open>Number(+Inf) == Number(-Inf)\<close> are all true, the two zeros are equal, and two neighbouring
  finite numbers are not.
\<close>

theorem number_equality:
  "(Json_eq (JsonNumber a) (JsonNumber b) \<longleftrightarrow>
      (isinf32 a \<and> isinf32 b) \<or> (isnan32 a \<and> isnan32 b) \<or>
      (\<not> isinf32 a \<and> \<not> isnan32 a \<and> \<not> isinf32 b \<and> \<not> isnan32 b \<and> f32_scaled a = f32_scaled b))
   \<and> Json_eq (JsonNumber 0x7FC00000) (JsonNumber 0x7FC00000)
   \<and> Json_eq (JsonNumber 0x7F800000) (JsonNumber 0x7F800000)
   \<and> Json_eq (JsonNumber 0x7F800000) (JsonNumber 0xFF800000)
   \<and> Json_eq (JsonNumber 0) (JsonNumber 0x80000000)
   \<and> \<not> Json_eq (JsonNumber 0x3F800000) (JsonNumber 0x3F800001)"
proof -
  have "Json_eq (JsonNumber a) (JsonNumber b) \<longleftrightarrow>
      (isinf32 a \<and> isinf32 b) \<or> (isnan32 a \<and> isnan32 b) \<or>
      (\<not> isinf32 a \<and> \<not> isnan32 a \<and> \<not> isinf32 b \<and> \<not> isnan32 b \<and> f32_scaled a = f32_scaled b)"
    using isinf32_not_isnan32 [of a] isinf32_not_isnan32 [of b]
    by (auto simp: JsonNumber_eq_def f32_diff_is_zero_def)
  moreover have "Json_eq (JsonNumber 0x7FC00000) (JsonNumber 0x7FC00000)
   \<and> Json_eq (JsonNumber 0x7F800000) (JsonNumber 0x7F800000)
   \<and> Json_eq (JsonNumber 0x7F800000) (JsonNumber 0xFF800000)
   \<and> Json_eq (JsonNumber 0) (JsonNumber 0x80000000)
   \<and> \<not> Json_eq (JsonNumber 0x3F800000) (JsonNumber 0x3F800001)"
    by (simp add: JsonNumber_eq_def isinf32_def isnan32_def f32_diff_is_zero_def f32_scaled_def)
  ultimately show ?thesis by blast
qed

theorem number_equality_witness:
  "Json_eq (JsonNumber 0x3F800000) (JsonNumber 0x3F800000)
   \<and> \<not> Json_eq (JsonNumber 0x3F800000) (JsonNumber 0x40000000)
   \<and> \<not> Json_eq (JsonNumber 0x7FC00000) (JsonNumber 0x7F800000)"
  using number_equality [of "0x3F800000" "0x3F800000"] number_equality [of "0x3F800000" "0x40000000"]
    number_equality [of "0x7FC00000" "0x7F800000"]
  by (simp add: isinf32_def isnan32_def f32_scaled_def)

section \<open>Text reader on concrete inputs\<close>

lemmas text_eval = JsonReader_Load_def JsonReader_ParseValue_def IsSpace_def Char_def
  GetNextNonSpaceChar_def Error_def Pos_def Expect_def to_string_digit char_eval

lemmas number_eval = JsonReader_ParseNumber_def deref_def is_digit_def exponent_part_def

text \<open>
  C7. Parsing the text \<^verbatim>\<open>{"a": }\<close> fails: the reader raises \<^verbatim>\<open>Unknown construct\<close> and the
  position in its message is 6, the index of the offending \<^verbatim>\<open>}\<close>. With four units of fuel or
  more the result is that error; with any fuel no document is returned.
\<close>

theorem text_parse_error_locality:
  "JsonReader_Load strtof (Suc (Suc (Suc (Suc fuel)))) ''{\"a\": }'' =
     Inl (Fatal (''Unknown construct, around character position: '' @ to_string 6 @ [CHR 0x0A] @
                 ''    {\"a\": }'' @ [CHR 0x0A] @ ''    ~~~~~^~''))
   \<and> ''{\"a\": }'' ! 6 = CHR ''}''
   \<and> to_string 6 = ''6''
   \<and> isl (JsonReader_Load strtof n ''{\"a\": }'')"
proof -
  have run: "JsonReader_Load strtof (Suc (Suc (Suc (Suc k)))) ''{\"a\": }'' =
     Inl (Fatal (''Unknown construct, around character position: '' @ to_string 6 @ [CHR 0x0A] @
                 ''    {\"a\": }'' @ [CHR 0x0A] @ ''    ~~~~~^~''))" for k
    by (simp add: text_eval ParseObject_key_def JsonReader_ParseString_def)
  have short: "isl (JsonReader_Load strtof 0 ''{\"a\": }'')"
    "isl (JsonReader_Load strtof (Suc 0) ''{\"a\": }'')"
    "isl (JsonReader_Load strtof (Suc (Suc 0)) ''{\"a\": }'')"
    "isl (JsonReader_Load strtof (Suc (Suc (Suc 0))) ''{\"a\": }'')"
    by (simp_all add: text_eval ParseObject_key_def JsonReader_ParseString_def)
  have "n = 0 \<or> n = Suc 0 \<or> n = Suc (Suc 0) \<or> n = Suc (Suc (Suc 0))
      \<or> (\<exists>k. n = Suc (Suc (Suc (Suc k))))"
    by presburger
  then have "isl (JsonReader_Load strtof n ''{\"a\": }'')"
    using short run by (elim disjE exE) simp_all
  moreover have "''{\"a\": }'' ! 6 = CHR ''}''" by simp
  moreover have "to_string 6 = ''6''" by (simp add: to_string_digit char_eval)
  ultimately show ?thesis using run [of fuel] by simp
qed

text \<open>
  C8, at the input \<^verbatim>\<open>+5\<close>. \<^verbatim>\<open>JsonReader::Parse\<close> sends \<^verbatim>\<open>-\<close>, a digit, \<^verbatim>\<open>N\<close> and \<^verbatim>\<open>I\<close> to
  \<^verbatim>\<open>ParseNumber\<close>, but not \<^verbatim>\<open>+\<close>: the input is rejected with \<^verbatim>\<open>Unknown construct\<close> at position
  0. \<^verbatim>\<open>ParseNumber\<close> itself has a case for a leading \<^verbatim>\<open>+\<close> and reads \<^verbatim>\<open>+5\<close> as the integer 5;
  \<^verbatim>\<open>-5\<close> goes through.
\<close>

theorem plus_sign_not_dispatched:
  "JsonReader_Load strtof (Suc fuel) ''+5'' =
     Inl (Fatal (''Unknown construct, around character position: 0'' @ [CHR 0x0A] @ '', \"+5 \"''))
   \<and> JsonReader_ParseNumber strtof ''+5'' ''+5'' = Inr (JsonInteger 5, [])
   \<and> JsonReader_Load strtof (Suc fuel) ''-5'' = Inr (JsonInteger (- 5))"
  by (simp add: text_eval number_eval)

lemma SkipSpaces_all:
  "\<forall>c\<in>set s. c = CHR '' '' \<or> c = CHR 0x0A \<or> c = CHR 0x0D \<or> c = CHR 0x09 \<Longrightarrow> SkipSpaces s = []"
  by (induction s) (auto simp: IsSpace_def)

text \<open>
  C9, as the claim states it, fails in binary mode: the binary reader does not skip
  whitespace, and a buffer holding one space is rejected with \<^verbatim>\<open>Unknown construct\<close>.
\<close>

theorem binary_whitespace_buffer_counterexample:
  "UBJReader_Load (\<lambda>_. 0) (Suc 0) '' '' =
     Inl (Fatal (''Unknown construct, around character position: 1'' @ [CHR 0x0A] @
                 ''     '' @ [CHR 0x0A] @ ''    ^''))"
  by (simp add: UBJReader_Load_def UBJReader_ParseValue_def Char_def Error_def Pos_def
      to_string_digit char_eval)

text \<open>
  C9, amended. In text mode a buffer that is empty or holds only whitespace (space, newline,
  carriage return, tab) parses to the default document, \<^verbatim>\<open>Null\<close>, without an error; in binary
  mode the empty buffer does.
\<close>

theorem empty_buffer_parses_to_null:
  "((\<forall>c\<in>set s. c = CHR '' '' \<or> c = CHR 0x0A \<or> c = CHR 0x0D \<or> c = CHR 0x09) \<longrightarrow>
      JsonReader_Load strtof (Suc fuel) s = Inr JsonNull)
   \<and> UBJReader_Load narrow (Suc fuel) [] = Inr JsonNull"
  by (simp add: JsonReader_Load_def UBJReader_Load_def SkipSpaces_all)

theorem empty_buffer_parses_to_null_witness:
  "JsonReader_Load (\<lambda>_. 0) (Suc 0) [CHR '' '', CHR 0x0A, CHR 0x09, CHR 0x0D] = Inr JsonNull
   \<and> JsonReader_Load (\<lambda>_. 0) (Suc 0) [] = Inr JsonNull
   \<and> UBJReader_Load (\<lambda>_. 0) (Suc 0) [] = Inr JsonNull"
  using empty_buffer_parses_to_null [of "[CHR '' '', CHR 0x0A, CHR 0x09, CHR 0x0D]" "\<lambda>_. 0" 0 "\<lambda>_. 0"]
    empty_buffer_parses_to_null [of "[]" "\<lambda>_. 0" 0 "\<lambda>_. 0"]
  by simp

section \<open>Duplicate keys\<close>

text \<open>
  C4, at a binary buffer holding an object with the key \<^verbatim>\<open>a\<close> twice, first with the value 1,
  then with the value 2. \<^verbatim>\<open>UBJReader::ParseObject\<close> inserts with \<^verbatim>\<open>emplace\<close>, which leaves a
  present key alone: the object read maps \<^verbatim>\<open>a\<close> to 1, the value inserted first. The text
  reader assigns through \<^verbatim>\<open>operator[]\<close> and on \<^verbatim>\<open>{"a": 1, "a": 2}\<close> keeps 2.
\<close>

theorem binary_reader_duplicate_key:
  "UBJReader_Load narrow (Suc (Suc (Suc (Suc fuel))))
     [CHR ''{'',
      CHR ''L'', CHR 0x00, CHR 0x00, CHR 0x00, CHR 0x00, CHR 0x00, CHR 0x00, CHR 0x00, CHR 0x01,
      CHR ''a'', CHR ''i'', CHR 0x01,
      CHR ''L'', CHR 0x00, CHR 0x00, CHR 0x00, CHR 0x00, CHR 0x00, CHR 0x00, CHR 0x00, CHR 0x01,
      CHR ''a'', CHR ''i'', CHR 0x02,
      CHR ''}'']
     = Inr (JsonObject [(''a'', JsonInteger 1)])
   \<and> JsonReader_Load strtof (Suc (Suc (Suc (Suc (Suc fuel))))) ''{\"a\": 1, \"a\": 2}''
     = Inr (JsonObject [(''a'', JsonInteger 2)])"
  by (simp add: UBJReader_Load_def UBJReader_ParseValue_def DecodeStr_def ReadPrimitive_def
      be_val_def text_eval ParseObject_key_def JsonReader_ParseString_def number_eval)


section \<open>Binary round trip\<close>

lemma size64:
  assumes "n < 2 ^ 63"
  shows "unat (of_nat n :: 64 word) = n" and "\<not> sint (of_nat n :: 64 word) < 0"
proof -
  from assms have lt: "n < 2 ^ 64" by simp
  then show "unat (of_nat n :: 64 word) = n"
    by (simp add: unat_of_nat)
  have "sint (of_nat n :: 64 word) = signed_take_bit 63 (int n)"
    by (simp add: signed_of_nat)
  also have "\<dots> = int n"
    using assms by (intro signed_take_bit_int_eq_self) simp_all
  finally show "\<not> sint (of_nat n :: 64 word) < 0" by simp
qed

lemma DecodeStr_EncodeStr:
  "length str < 2 ^ 63 \<Longrightarrow> DecodeStr raw (EncodeStr str @ rest) = Inr (str, rest)"
  by (simp add: DecodeStr_def EncodeStr_def ReadPrimitive_WritePrimitive size64)

lemma ReadPrimitives_concat:
  fixes vec :: "'a::len word list"
  assumes "8 dvd LENGTH('a)"
  shows "ReadPrimitives (length vec) (concat (map WritePrimitive vec) @ rest) = Inr (vec, rest)"
  using assms by (induction vec) (simp_all add: ReadPrimitive_WritePrimitive)

lemma ParseArray_typed_header:
  "length vec < 2 ^ 63 \<Longrightarrow>
   TypedArrayHeader raw (CHR ''$'' # code # CHR ''#'' # CHR ''L'' #
       WritePrimitive (of_nat (length vec) :: 64 word) @ bytes)
     = Inr (Char code, of_nat (length vec), bytes)"
  by (simp add: TypedArrayHeader_def ReadPrimitive_WritePrimitive)

lemma ParseTypedArray_concat:
  fixes vec :: "'a::len word list"
  assumes "8 dvd LENGTH('a)" "length vec < 2 ^ 63"
  shows "ParseTypedArray (of_nat (length vec)) (concat (map WritePrimitive vec) @ rest) = Inr (vec, rest)"
  using assms by (simp add: ParseTypedArray_def size64 ReadPrimitives_concat)

lemma Map_emplace_last:
  "\<forall>k'\<in>fst ` set results. k' < key \<Longrightarrow> Map_emplace key v results = results @ [(key, v)]"
  by (induction results) auto

lemma UBJ_roundtrip_aux:
  "encodable d \<Longrightarrow>
     UBJReader_Parse narrow raw (UBJ_fuel d + f) (UBJWriter_Save d @ rest) = Inr (d, rest)"
  "encodable_list vec \<Longrightarrow>
     ParseArray_counted narrow raw (UBJ_fuel_list vec + f) (length vec) results
        (UBJWriter_SaveArray vec @ rest) = Inr (JsonArray (results @ vec), rest)"
  "encodable_map obj \<Longrightarrow> sorted_wrt (<) (map fst obj) \<Longrightarrow>
     \<forall>k'\<in>fst ` set res. \<forall>k\<in>fst ` set obj. k' < k \<Longrightarrow>
     UBJReader_ParseObject narrow raw (UBJ_fuel_map obj + f) res
        (UBJWriter_SaveObject obj @ CHR ''}'' # rest) = Inr (JsonObject (res @ obj), rest)"
proof (induction d and vec and obj arbitrary: f rest and f results rest and f res rest
    rule: UBJWriter_Save_UBJWriter_SaveArray_UBJWriter_SaveObject.induct)
  case 1
  show ?case by (simp add: UBJReader_ParseValue_def Char_eq_minus1)
next
  case (2 b)
  show ?case by (simp add: UBJReader_ParseValue_def Char_eq_minus1)
next
  case (3 i)
  show ?case by (simp only: UBJ_fuel.simps UBJWriter_Save.simps add_Suc add_0 UBJ_integer_roundtrip)
next
  case (4 val)
  show ?case by (simp add: UBJReader_ParseValue_def Char_eq_minus1 ReadPrimitive_WritePrimitive)
next
  case (5 str)
  then show ?case by (simp add: UBJReader_ParseValue_def Char_eq_minus1 DecodeStr_EncodeStr)
next
  case (6 vec)
  then show ?case
    using "6.IH" [where f = f and results = "[]" and rest = rest]
    by (simp add: Char_eq_minus1 CountedArrayHeader_def ReadPrimitive_WritePrimitive size64)
next
  case (7 obj)
  then show ?case
    using "7.IH" [where f = f and res = "[]" and rest = rest]
    by (simp add: Char_eq_minus1)
next
  case (8 vec)
  then show ?case
    by (simp add: WriteTypedArray_def Char_eq_minus1 ParseArray_typed_def ParseArray_typed_header
        ParseTypedArray_concat typed_def)
next
  case (9 vec)
  then show ?case
    by (simp add: WriteTypedArray_def Char_eq_minus1 ParseArray_typed_def ParseArray_typed_header
        ParseTypedArray_concat typed_def)
next
  case (10 vec)
  then show ?case
    by (simp add: WriteTypedArray_def Char_eq_minus1 ParseArray_typed_def ParseArray_typed_header
        ParseTypedArray_concat typed_def)
next
  case (11 vec)
  then show ?case
    by (simp add: WriteTypedArray_def Char_eq_minus1 ParseArray_typed_def ParseArray_typed_header
        ParseTypedArray_concat typed_def)
next
  case (12 vec)
  then show ?case
    by (simp add: WriteTypedArray_def Char_eq_minus1 ParseArray_typed_def ParseArray_typed_header
        ParseTypedArray_concat typed_def)
next
  case (13 vec)
  then show ?case
    by (simp add: WriteTypedArray_def Char_eq_minus1 ParseArray_typed_def ParseArray_typed_header
        ParseTypedArray_concat typed_def)
next
  case (14 vec)
  then show ?case
    by (simp add: WriteTypedArray_def Char_eq_minus1 ParseArray_typed_def ParseArray_typed_header
        ParseTypedArray_concat typed_def)
next
  case (15 vec)
  then show ?case by simp
next
  case (16 vec)
  then show ?case by simp
next
  case (17 vec)
  then show ?case by simp
next
  case 18
  show ?case by simp
next
  case (19 v vec)
  from "19.prems" have ev: "encodable v" and el: "encodable_list vec" by simp_all
  have a: "UBJReader_Parse narrow raw (UBJ_fuel v + UBJ_fuel_list vec + f)
             (UBJWriter_Save v @ UBJWriter_SaveArray vec @ rest) = Inr (v, UBJWriter_SaveArray vec @ rest)"
    using "19.IH"(1) [OF ev, where f = "UBJ_fuel_list vec + f" and rest = "UBJWriter_SaveArray vec @ rest"]
    by (simp add: add.assoc)
  have b: "ParseArray_counted narrow raw (UBJ_fuel v + UBJ_fuel_list vec + f) (length vec) (results @ [v])
             (UBJWriter_SaveArray vec @ rest) = Inr (JsonArray ((results @ [v]) @ vec), rest)"
    using "19.IH"(2) [OF el, where f = "UBJ_fuel v + f" and results = "results @ [v]" and rest = rest]
    by (simp add: add.commute add.left_commute)
  show ?case using a b by simp
next
  case 20
  show ?case by simp
next
  case (21 key v obj)
  from "21.prems" have lk: "length key < 2 ^ 63" and ev: "encodable v" and em: "encodable_map obj"
    and so: "sorted_wrt (<) (map fst obj)" and kl: "\<forall>k\<in>fst ` set obj. key < k"
    and rk: "\<forall>k'\<in>fst ` set res. k' < key" and ro: "\<forall>k'\<in>fst ` set res. \<forall>k\<in>fst ` set obj. k' < k"
    by auto
  have pk: "PeekNextChar (EncodeStr key @ bytes) \<noteq> Char CHR ''}''" for bytes
    by (simp add: EncodeStr_def)
  have a: "UBJReader_Parse narrow raw (UBJ_fuel v + UBJ_fuel_map obj + f)
             (UBJWriter_Save v @ UBJWriter_SaveObject obj @ CHR ''}'' # rest)
           = Inr (v, UBJWriter_SaveObject obj @ CHR ''}'' # rest)"
    using "21.IH"(1) [OF ev, where f = "UBJ_fuel_map obj + f" and rest = "UBJWriter_SaveObject obj @ CHR ''}'' # rest"]
    by (simp add: add.assoc)
  have inv: "\<forall>k'\<in>fst ` set (res @ [(key, v)]). \<forall>k\<in>fst ` set obj. k' < k"
    using kl ro by auto
  have b: "UBJReader_ParseObject narrow raw (UBJ_fuel v + UBJ_fuel_map obj + f) (res @ [(key, v)])
             (UBJWriter_SaveObject obj @ CHR ''}'' # rest) = Inr (JsonObject ((res @ [(key, v)]) @ obj), rest)"
    using "21.IH"(2) [OF em so inv, where f = "UBJ_fuel v + f" and rest = rest]
    by (simp add: add.commute add.left_commute)
  show ?case
    using a b pk by (simp add: DecodeStr_EncodeStr [OF lk] Map_emplace_last [OF rk])
qed

lemma ParseValue_kinds:
  "UBJReader_ParseValue narrow raw c r = Inr (d, r') \<Longrightarrow>
     (\<forall>vec. d \<noteq> U16Array vec) \<and> (\<forall>vec. d \<noteq> U32Array vec) \<and> (\<forall>vec. d \<noteq> U64Array vec)"
  by (auto simp: UBJReader_ParseValue_def split: if_splits sum.splits prod.splits)

lemma ParseArray_typed_kinds:
  "ParseArray_typed raw rest = Inr (d, r') \<Longrightarrow>
     (\<forall>vec. d \<noteq> U16Array vec) \<and> (\<forall>vec. d \<noteq> U32Array vec) \<and> (\<forall>vec. d \<noteq> U64Array vec)"
  by (auto simp: ParseArray_typed_def typed_def split: if_splits sum.splits prod.splits)

lemma UBJReader_kinds:
  "UBJReader_Parse narrow raw fuel rest = Inr (d, r') \<Longrightarrow>
     (\<forall>vec. d \<noteq> U16Array vec) \<and> (\<forall>vec. d \<noteq> U32Array vec) \<and> (\<forall>vec. d \<noteq> U64Array vec)"
  "UBJReader_ParseArray narrow raw fuel rest = Inr (d, r') \<Longrightarrow>
     (\<forall>vec. d \<noteq> U16Array vec) \<and> (\<forall>vec. d \<noteq> U32Array vec) \<and> (\<forall>vec. d \<noteq> U64Array vec)"
  "ParseArray_counted narrow raw fuel n results rest = Inr (d, r') \<Longrightarrow>
     (\<forall>vec. d \<noteq> U16Array vec) \<and> (\<forall>vec. d \<noteq> U32Array vec) \<and> (\<forall>vec. d \<noteq> U64Array vec)"
  "ParseArray_plain narrow raw fuel results rest = Inr (d, r') \<Longrightarrow>
     (\<forall>vec. d \<noteq> U16Array vec) \<and> (\<forall>vec. d \<noteq> U32Array vec) \<and> (\<forall>vec. d \<noteq> U64Array vec)"
  "UBJReader_ParseObject narrow raw fuel res rest = Inr (d, r') \<Longrightarrow>
     (\<forall>vec. d \<noteq> U16Array vec) \<and> (\<forall>vec. d \<noteq> U32Array vec) \<and> (\<forall>vec. d \<noteq> U64Array vec)"
proof (induction narrow raw fuel rest and narrow raw fuel rest and narrow raw fuel n results rest
    and narrow raw fuel results rest and narrow raw fuel res rest arbitrary: d r' and d r' and d r' and d r' and d r'
    rule: UBJReader_Parse_UBJReader_ParseArray_ParseArray_counted_ParseArray_plain_UBJReader_ParseObject.induct)
  case (1 narrow raw rest)
  then show ?case by simp
next
  case (2 narrow raw fuel rest)
  then show ?case
    by (auto split: if_splits dest: ParseValue_kinds)
next
  case (3 narrow raw rest)
  then show ?case by simp
next
  case (4 narrow raw fuel rest)
  then show ?case
    by (auto split: if_splits sum.splits prod.splits dest: ParseArray_typed_kinds)
next
  case (5 narrow raw n results rest)
  then show ?case by simp
next
  case (6 narrow raw fuel n results rest)
  then show ?case
    by (auto split: if_splits sum.splits prod.splits)
next
  case (7 narrow raw results rest)
  then show ?case by simp
next
  case (8 narrow raw fuel results rest)
  then show ?case
    by (auto split: if_splits sum.splits prod.splits)
next
  case (9 narrow raw results rest)
  then show ?case by simp
next
  case (10 narrow raw fuel results rest)
  then show ?case
    by (auto split: if_splits sum.splits prod.splits)
qed

lemma F32Array_eq_refl: "F32Array_eq vec vec"
  by (induction vec) (auto simp: f32_diff_is_zero_def)

lemma std_equal_refl: "\<forall>x\<in>set vec. eq x x \<Longrightarrow> std_equal eq vec vec"
  by (induction vec) auto

lemma JsonNumber_eq_refl: "JsonNumber_eq x x"
  by (simp add: JsonNumber_eq_def f32_diff_is_zero_def)

lemma Json_eq_refl:
  "nan_free d \<Longrightarrow> Json_eq d d"
  "nan_free_list vec \<Longrightarrow> Array_eq vec vec"
  "nan_free_map obj \<Longrightarrow> Map_eq obj obj"
  by (induction d and vec and obj rule: nan_free_nan_free_list_nan_free_map.induct)
    (simp_all add: F32Array_eq_refl std_equal_refl JsonNumber_eq_refl f64_eq_def)

lemma UBJ_roundtrip_fuel:
  assumes "encodable d" and "UBJ_fuel d \<le> fuel"
  shows "UBJReader_Parse narrow raw fuel (UBJWriter_Save d @ rest) = Inr (d, rest)"
proof -
  from assms(2) have "fuel = UBJ_fuel d + (fuel - UBJ_fuel d)" by simp
  then show ?thesis
    using UBJ_roundtrip_aux(1) [OF assms(1), of narrow raw "fuel - UBJ_fuel d" rest] by simp
qed

text \<open>
  C1, amended. For every document that holds no \<^verbatim>\<open>U16Array\<close>, \<^verbatim>\<open>U32Array\<close> or \<^verbatim>\<open>U64Array\<close>
  node (with sizes that fit \<^verbatim>\<open>int64_t\<close> and objects in map order), parsing its binary dump in
  binary mode with enough fuel returns the document itself, bit for bit, the seven typed-array
  kinds the format has a type code for included; the result is structurally equal to the
  document whenever no \<^verbatim>\<open>F64Array\<close> in it holds a NaN.
\<close>

theorem binary_roundtrip:
  assumes "encodable d" and "UBJ_fuel d \<le> fuel"
  shows "\<exists>d'. UBJReader_Load narrow fuel (Dump_binary d) = Inr d' \<and> d' = d \<and> (nan_free d \<longrightarrow> Json_eq d' d)"
  using UBJ_roundtrip_fuel [OF assms, of narrow "Dump_binary d" "[]"]
  by (simp add: UBJReader_Load_def Dump_binary_def Json_eq_refl)

theorem binary_roundtrip_witness:
  "UBJReader_Load (\<lambda>_. 0)
     (UBJ_fuel (JsonObject [(''a'', JsonArray [JsonInteger 1, JsonString ''x'']), (''b'', F64Array [0x3FF0000000000000])]))
     (Dump_binary (JsonObject [(''a'', JsonArray [JsonInteger 1, JsonString ''x'']), (''b'', F64Array [0x3FF0000000000000])]))
   = Inr (JsonObject [(''a'', JsonArray [JsonInteger 1, JsonString ''x'']), (''b'', F64Array [0x3FF0000000000000])])
   \<and> Json_eq (JsonObject [(''a'', JsonArray [JsonInteger 1, JsonString ''x'']), (''b'', F64Array [0x3FF0000000000000])])
        (JsonObject [(''a'', JsonArray [JsonInteger 1, JsonString ''x'']), (''b'', F64Array [0x3FF0000000000000])])"
  using binary_roundtrip [of "JsonObject [(''a'', JsonArray [JsonInteger 1, JsonString ''x'']), (''b'', F64Array [0x3FF0000000000000])]"
      "UBJ_fuel (JsonObject [(''a'', JsonArray [JsonInteger 1, JsonString ''x'']), (''b'', F64Array [0x3FF0000000000000])])" "\<lambda>_. 0"]
  by (simp add: isnan64_def)

text \<open>
  C1, as the claim states it, fails on the kinds \<^verbatim>\<open>U16Array\<close>, \<^verbatim>\<open>U32Array\<close> and \<^verbatim>\<open>U64Array\<close>:
  the dump of the empty \<^verbatim>\<open>U16Array\<close> is read back as an empty \<^verbatim>\<open>Array\<close>, which is not equal to it
  in either direction, and the dump of a \<^verbatim>\<open>U16Array\<close> with two elements is rejected with
  \<^verbatim>\<open>Unknown construct\<close> at the comma after its first element.
\<close>

theorem binary_roundtrip_counterexample:
  "UBJReader_Load (\<lambda>_. 0) (Suc (Suc (Suc 0))) (Dump_binary (U16Array [])) = Inr (JsonArray [])
   \<and> \<not> Json_eq (JsonArray []) (U16Array [])
   \<and> \<not> Json_eq (U16Array []) (JsonArray [])
   \<and> UBJReader_Load (\<lambda>_. 0) (Suc (Suc (Suc (Suc (Suc 0))))) (Dump_binary (U16Array [1, 2]))
       = Inl (Fatal (''Unknown construct, around character position: 4'' @ [CHR 0x0A] @
                     ''    [i'' @ [CHR 0x01] @ '',i'' @ [CHR 0x02] @ '']'' @ [CHR 0x0A] @ ''    ~~~^~~~''))"
  by (simp add: UBJReader_Load_def Dump_binary_def WriteArray_def Char_def UBJWriter_Visit_Integer_def
      WritePrimitive_def UBJReader_ParseValue_def ReadPrimitive_def be_val_def char_eval
      Error_def Pos_def to_string_digit)

lemma SaveArray_concat: "UBJWriter_SaveArray vec = concat (map UBJWriter_Save vec)"
  by (induction vec) simp_all

text \<open>
  C5, amended. The counted array encoding is the bytes \<^verbatim>\<open>[\<close> \<^verbatim>\<open>#\<close> \<^verbatim>\<open>L\<close>, an 8-byte big-endian
  count and the count's elements, with no closing \<^verbatim>\<open>]\<close>. The binary writer's output for an
  \<^verbatim>\<open>Array\<close> node is exactly this, and the binary reader consumes exactly this, leaving whatever
  follows unread.
\<close>

theorem counted_array_layout:
  "Dump_binary (JsonArray vec) =
     CHR ''['' # CHR ''#'' # CHR ''L'' # WritePrimitive (of_nat (length vec) :: 64 word) @ concat (map Dump_binary vec)
   \<and> length (WritePrimitive (of_nat (length vec) :: 64 word)) = 8
   \<and> (encodable (JsonArray vec) \<and> UBJ_fuel (JsonArray vec) \<le> fuel \<longrightarrow>
        be_val (WritePrimitive (of_nat (length vec) :: 64 word)) = length vec
      \<and> UBJReader_Parse narrow raw fuel (Dump_binary (JsonArray vec) @ rest) = Inr (JsonArray vec, rest))"
proof -
  have "Dump_binary = UBJWriter_Save" by (rule ext) (simp add: Dump_binary_def)
  then have layout: "Dump_binary (JsonArray vec) =
     CHR ''['' # CHR ''#'' # CHR ''L'' # WritePrimitive (of_nat (length vec) :: 64 word) @ concat (map Dump_binary vec)"
    by (simp add: SaveArray_concat)
  have count: "be_val (WritePrimitive (of_nat (length vec) :: 64 word)) = length vec" if "length vec < 2 ^ 63"
  proof -
    have "be_val (WritePrimitive (of_nat (length vec) :: 64 word)) = unat (of_nat (length vec) :: 64 word) mod 256 ^ 8"
      by (simp add: WritePrimitive_def be_val_be_bytes)
    also have "\<dots> = length vec" using that by (simp add: size64)
    finally show ?thesis .
  qed
  show ?thesis
    using layout count UBJ_roundtrip_fuel [of "JsonArray vec" fuel narrow raw rest]
    by (simp add: Dump_binary_def)
qed

text \<open>
  C5, as the claim states it, fails: the writer emits no closing \<^verbatim>\<open>]\<close> after a counted array
  (the dump of the empty array is the three header bytes and the eight count bytes), and the
  reader does not consume one: a \<^verbatim>\<open>]\<close> that follows is left in the input.
\<close>

theorem counted_array_layout_counterexample:
  "Dump_binary (JsonArray []) =
     [CHR ''['', CHR ''#'', CHR ''L'', CHR 0x00, CHR 0x00, CHR 0x00, CHR 0x00, CHR 0x00, CHR 0x00, CHR 0x00, CHR 0x00]
   \<and> UBJReader_Parse (\<lambda>_. 0) [] (Suc (Suc (Suc 0))) (Dump_binary (JsonArray []) @ '']'') = Inr (JsonArray [], '']'')"
  by (simp add: Dump_binary_def WritePrimitive_def be_bytes_numeral char_eval CountedArrayHeader_def ReadPrimitive_def be_val_def Char_def)


theorem counted_array_layout_witness:
  "Dump_binary (JsonArray [JsonInteger 1, JsonNull]) =
     CHR ''['' # CHR ''#'' # CHR ''L'' # WritePrimitive (of_nat (length [JsonInteger 1, JsonNull]) :: 64 word)
       @ concat (map Dump_binary [JsonInteger 1, JsonNull])
   \<and> be_val (WritePrimitive (of_nat (length [JsonInteger 1, JsonNull]) :: 64 word)) = length [JsonInteger 1, JsonNull]
   \<and> UBJReader_Parse (\<lambda>_. 0) [] (UBJ_fuel (JsonArray [JsonInteger 1, JsonNull]))
         (Dump_binary (JsonArray [JsonInteger 1, JsonNull]) @ '']'')
       = Inr (JsonArray [JsonInteger 1, JsonNull], '']'')"
proof -
  have "encodable (JsonArray [JsonInteger 1, JsonNull])
      \<and> UBJ_fuel (JsonArray [JsonInteger 1, JsonNull]) \<le> UBJ_fuel (JsonArray [JsonInteger 1, JsonNull])"
    by simp
  with counted_array_layout [of "[JsonInteger 1, JsonNull]" "UBJ_fuel (JsonArray [JsonInteger 1, JsonNull])"
      "\<lambda>_. 0" "[]" "'']''"]
  show ?thesis by blast
qed


section \<open>Text arrays\<close>

lemma Parse_rbracket: "isl (JsonReader_Parse strtof raw g (CHR '']'' # k))"
  by (cases g) (simp_all add: IsSpace_def JsonReader_ParseValue_def Char_def)

lemma WriteArray_elems_Cons:
  "vs \<noteq> [] \<Longrightarrow> WriteArray_elems save (v # vs) = save v @ CHR '','' # WriteArray_elems save vs"
  by (cases vs) simp_all

lemma element_not_rbracket:
  assumes "JsonReader_Parse strtof raw g (t @ c # k) = Inr (v, c # k)"
    and "c = CHR '','' \<or> c = CHR '']''"
  shows "PeekNextChar (t @ c # k) \<noteq> Char CHR '']''"
proof
  assume p: "PeekNextChar (t @ c # k) = Char CHR '']''"
  then obtain r where "t @ c # k = CHR '']'' # r"
    by (cases "t @ c # k") simp_all
  then have "isl (JsonReader_Parse strtof raw g (t @ c # k))"
    using Parse_rbracket [of strtof raw g r] by simp
  with assms(1) show False by simp
qed

lemma GetNextNonSpaceChar_comma [simp]: "GetNextNonSpaceChar (CHR '','' # k) = (Char CHR '','', k)"
  by (simp add: GetNextNonSpaceChar_def IsSpace_def Char_def)

lemma GetNextNonSpaceChar_rbracket [simp]: "GetNextNonSpaceChar (CHR '']'' # k) = (Char CHR '']'', k)"
  by (simp add: GetNextNonSpaceChar_def IsSpace_def Char_def)

lemma loop_step:
  assumes "JsonReader_Parse strtof raw g (t @ CHR '','' # k) = Inr (v, CHR '','' # k)"
  shows "ParseArray_loop strtof raw (Suc g) data (t @ CHR '','' # k) = ParseArray_loop strtof raw g (data @ [v]) k"
  using element_not_rbracket [OF assms] assms by simp

lemma loop_last:
  assumes "JsonReader_Parse strtof raw g (t @ CHR '']'' # k) = Inr (v, CHR '']'' # k)"
  shows "ParseArray_loop strtof raw (Suc g) data (t @ CHR '']'' # k) = Inr (JsonArray (data @ [v]), k)"
  using element_not_rbracket [OF assms] assms by simp

lemma loop_close: "ParseArray_loop strtof raw (Suc g) data (CHR '']'' # k) = Inr (JsonArray data, k)"
  by simp

lemma ParseArray_loop_elems:
  assumes "elems \<noteq> []"
    and "\<forall>(t, v)\<in>set elems. \<forall>g\<ge>fuel. \<forall>c k. (c = CHR '','' \<or> c = CHR '']'') \<longrightarrow>
           JsonReader_Parse strtof raw g (t @ c # k) = Inr (v, c # k)"
    and "fuel < g"
  shows "ParseArray_loop strtof raw (length elems + g) data
           (WriteArray_elems (\<lambda>t. t) (map fst elems) @ CHR '']'' # rest)
           = Inr (JsonArray (data @ map snd elems), rest)
       \<and> ParseArray_loop strtof raw (length elems + g) data
           (WriteArray_elems (\<lambda>t. t) (map fst elems) @ CHR '','' # CHR '']'' # rest)
           = Inr (JsonArray (data @ map snd elems), rest)"
  using assms
proof (induction elems arbitrary: data rule: list_nonempty_induct)
  case (single e)
  obtain t v where e: "e = (t, v)" by (cases e)
  from single.prems(2) obtain g' where g: "g = Suc g'" and g': "fuel \<le> g'"
    by (cases g) simp_all
  have H: "JsonReader_Parse strtof raw n (t @ c # k) = Inr (v, c # k)"
    if "fuel \<le> n" "c = CHR '','' \<or> c = CHR '']''" for n c k
    using single.prems(1) that by (auto simp: e)
  have g'': "fuel \<le> Suc g'" using g' by simp
  have a: "ParseArray_loop strtof raw (Suc (Suc g')) data (t @ CHR '']'' # rest)
           = Inr (JsonArray (data @ [v]), rest)"
    by (rule loop_last) (rule H [OF g''], simp)
  have "ParseArray_loop strtof raw (Suc (Suc g')) data (t @ CHR '','' # CHR '']'' # rest)
           = ParseArray_loop strtof raw (Suc g') (data @ [v]) (CHR '']'' # rest)"
    by (rule loop_step) (rule H [OF g''], simp)
  then have b: "ParseArray_loop strtof raw (Suc (Suc g')) data (t @ CHR '','' # CHR '']'' # rest)
           = Inr (JsonArray (data @ [v]), rest)"
    by (simp only: loop_close)
  from a b show ?case by (simp add: g e del: JsonReader_Parse.simps ParseArray_loop.simps JsonReader_ParseArray.simps)
next
  case (cons e es)
  obtain t v where e: "e = (t, v)" by (cases e)
  have H: "JsonReader_Parse strtof raw n (t @ c # k) = Inr (v, c # k)"
    if "fuel \<le> n" "c = CHR '','' \<or> c = CHR '']''" for n c k
    using cons.prems(1) that by (auto simp: e)
  have Hes: "\<forall>(t, v)\<in>set es. \<forall>g\<ge>fuel. \<forall>c k. (c = CHR '','' \<or> c = CHR '']'') \<longrightarrow>
           JsonReader_Parse strtof raw g (t @ c # k) = Inr (v, c # k)"
    using cons.prems(1) by simp
  have ne: "map fst es \<noteq> []" using cons.hyps by simp
  have f: "fuel \<le> length es + g" using cons.prems(2) by simp
  note IH = cons.IH [OF Hes cons.prems(2), of "data @ [v]"]
  have step: "ParseArray_loop strtof raw (Suc (length es + g)) data (t @ CHR '','' # k)
      = ParseArray_loop strtof raw (length es + g) (data @ [v]) k" for k
    by (rule loop_step) (rule H [OF f], simp)
  show ?case
    using IH by (simp add: e WriteArray_elems_Cons [OF ne] step del: JsonReader_Parse.simps ParseArray_loop.simps JsonReader_ParseArray.simps)
qed

lemma Parse_array_texts:
  assumes "elems \<noteq> []"
    and "\<forall>(t, v)\<in>set elems. \<forall>g\<ge>fuel. \<forall>c k. (c = CHR '','' \<or> c = CHR '']'') \<longrightarrow>
           JsonReader_Parse strtof raw g (t @ c # k) = Inr (v, c # k)"
    and "fuel + length elems + 3 \<le> g"
  shows "JsonReader_Parse strtof raw g (CHR ''['' # WriteArray_elems (\<lambda>t. t) (map fst elems) @ '',]'' @ rest)
           = Inr (JsonArray (map snd elems), rest)
       \<and> JsonReader_Parse strtof raw g (CHR ''['' # WriteArray_elems (\<lambda>t. t) (map fst elems) @ '']'' @ rest)
           = Inr (JsonArray (map snd elems), rest)"
proof -
  define g2 where "g2 = g - length elems - 2"
  have g: "g = Suc (Suc (length elems + g2))" and g2: "fuel < g2"
    using assms(3) by (simp_all add: g2_def)
  have start: "JsonReader_Parse strtof raw (Suc (Suc n)) (CHR ''['' # k) = ParseArray_loop strtof raw n [] k" for n k
    by (simp add: IsSpace_def Char_def)
  show ?thesis
    using ParseArray_loop_elems [OF assms(1,2) g2, of "[]" rest]
    by (simp add: g start del: JsonReader_Parse.simps ParseArray_loop.simps JsonReader_ParseArray.simps)
qed

text \<open>
  C10. The text array parser accepts a trailing comma. Take one or more element texts, each of
  which the reader parses to its value and stops at the \<^verbatim>\<open>,\<close> or \<^verbatim>\<open>]\<close> that follows it. Joined by
  commas between \<^verbatim>\<open>[\<close> and \<^verbatim>\<open>,]\<close>, they parse, with enough fuel, to the array of these values: the
  same array as without the trailing comma. After a comma the loop looks for \<^verbatim>\<open>]\<close> before it
  parses another element.
\<close>

theorem array_trailing_comma:
  assumes "elems \<noteq> []"
    and "\<forall>(t, v)\<in>set elems. \<forall>g\<ge>fuel. \<forall>c k. (c = CHR '','' \<or> c = CHR '']'') \<longrightarrow>
           JsonReader_Parse strtof raw g (t @ c # k) = Inr (v, c # k)"
    and "fuel + length elems + 3 \<le> g"
  shows "JsonReader_Parse strtof raw g (CHR ''['' # WriteArray_elems (\<lambda>t. t) (map fst elems) @ '',]'' @ rest)
           = Inr (JsonArray (map snd elems), rest)
       \<and> JsonReader_Parse strtof raw g (CHR ''['' # WriteArray_elems (\<lambda>t. t) (map fst elems) @ '']'' @ rest)
           = Inr (JsonArray (map snd elems), rest)"
  using assms by (rule Parse_array_texts)

lemma witness_elements:
  "\<forall>(t, v)\<in>set [(''1'', JsonInteger 1), (''true'', JsonBoolean True)]. \<forall>g\<ge>Suc 0. \<forall>c k.
      (c = CHR '','' \<or> c = CHR '']'') \<longrightarrow>
      JsonReader_Parse (\<lambda>_. 0) raw g (t @ c # k) = Inr (v, c # k)"
proof -
  have "JsonReader_Parse (\<lambda>_. 0) raw g (''1'' @ c # k) = Inr (JsonInteger 1, c # k)
      \<and> JsonReader_Parse (\<lambda>_. 0) raw g (''true'' @ c # k) = Inr (JsonBoolean True, c # k)"
    if "Suc 0 \<le> g" "c = CHR '','' \<or> c = CHR '']''" for g c k
  proof -
    from that(1) obtain g' where "g = Suc g'" by (cases g) simp_all
    with that(2) show ?thesis
      by (auto simp: text_eval number_eval JsonReader_ParseBoolean_def GetConsecutiveChar_def)
  qed
  then show ?thesis by simp
qed

theorem array_trailing_comma_witness:
  "JsonReader_Load (\<lambda>_. 0) 6 ''[1,true,]'' = Inr (JsonArray [JsonInteger 1, JsonBoolean True])
   \<and> JsonReader_Load (\<lambda>_. 0) 6 ''[1,true]'' = Inr (JsonArray [JsonInteger 1, JsonBoolean True])"
  using array_trailing_comma [OF _ witness_elements, of 6 "''[1,true,]''" "[]"]
    array_trailing_comma [OF _ witness_elements, of 6 "''[1,true]''" "[]"]
  by (simp add: JsonReader_Load_def)


section \<open>Text of typed arrays\<close>












lemma deref_Cons [simp]: "deref (c # p) = c"
  by (simp add: deref_def)















lemma starts_with_simps [simp]:
  "starts_with c [] = False" "starts_with c (x # r) = (x = c)"
  by (simp_all add: starts_with_def)

lemma starts_with_digit_simps [simp]:
  "starts_with_digit [] = False" "starts_with_digit (x # r) = is_digit x"
  by (simp_all add: starts_with_digit_def)























end
